theory Spec2Isabelle
  imports Main "HOL-Library.Word"
begin

section \<open>The vikebot client: a shallow embedding of game.go, packet.go and player.go\<close>

text \<open>
  Go byte slices and Go strings are both sequences of bytes; both are modelled by
  \<^typ>\<open>string\<close> (a list of 8-bit characters).  A Go call either returns normally
  with a nil error (\<open>Ok\<close>), returns a non-nil error (\<open>Err\<close>, carrying the text of
  \<open>err.Error()\<close>; the value returned next to a non-nil error -- nil, 0, or -1 in
  \<open>Attack\<close> -- is not kept), or panics at run time (\<open>Panic\<close>: a nil
  dereference or a slice bound out of range).
\<close>

datatype 'a res = Ok 'a | Err string | Panic

subsection \<open>Formatting verbs of fmt\<close>

definition digit :: "nat \<Rightarrow> char" where
  "digit d = ''0123456789'' ! d"

text \<open>\<open>strconv.FormatUint(n, 10)\<close>, and the verb \<open>%d\<close> on an unsigned value.\<close>

fun fmt_uint :: "nat \<Rightarrow> string" where
  "fmt_uint n = (if n < 10 then [digit n] else fmt_uint (n div 10) @ [digit (n mod 10)])"

declare fmt_uint.simps [simp del]

text \<open>The verb \<open>%d\<close> on a signed value.\<close>

definition fmt_int :: "int \<Rightarrow> string" where
  "fmt_int i = (if i < 0 then CHR ''-'' # fmt_uint (nat (- i)) else fmt_uint (nat i))"

subsection \<open>encoding/base64: RawStdEncoding\<close>

text \<open>
  The standard alphabet without padding.  \<open>Decode\<close> follows the library's
  \<open>decodeQuantum\<close>: carriage returns and line feeds are skipped, any other byte
  outside the alphabet is a \<open>CorruptInputError\<close> at its offset, a final group of one
  character is a \<open>CorruptInputError\<close>, final groups of two and three characters give
  one and two bytes, and trailing bits are not checked (the encoding is not strict).
\<close>

definition encodeStd :: string where
  "encodeStd = ''ABCDEFGHIJKLMNOPQRSTUVWXYZabcdefghijklmnopqrstuvwxyz0123456789+/''"

definition enc64 :: "nat \<Rightarrow> char" where
  "enc64 n = encodeStd ! n"

fun index_of :: "'a \<Rightarrow> 'a list \<Rightarrow> nat" where
  "index_of c [] = 0"
| "index_of c (x # xs) = (if x = c then 0 else Suc (index_of c xs))"

definition decodeMap :: "char \<Rightarrow> nat option" where
  "decodeMap c = (let i = index_of c encodeStd in if i < 64 then Some i else None)"

definition EncodedLen :: "nat \<Rightarrow> nat" where
  "EncodedLen n = n div 3 * 4 + (n mod 3 * 8 + 5) div 6"

definition DecodedLen :: "nat \<Rightarrow> nat" where
  "DecodedLen n = n * 6 div 8"

definition byte :: "nat \<Rightarrow> char" where
  "byte n = char_of n"

fun Encode :: "string \<Rightarrow> string" where
  "Encode [] = []"
| "Encode [a] =
     (let x = of_char a :: nat in [enc64 (x div 4), enc64 (x mod 4 * 16)])"
| "Encode [a, b] =
     (let x = of_char a :: nat; y = of_char b :: nat
      in [enc64 (x div 4), enc64 (x mod 4 * 16 + y div 16), enc64 (y mod 16 * 4)])"
| "Encode (a # b # c # rest) =
     (let x = of_char a :: nat; y = of_char b :: nat; z = of_char c :: nat
      in enc64 (x div 4) # enc64 (x mod 4 * 16 + y div 16)
         # enc64 (y mod 16 * 4 + z div 64) # enc64 (z mod 64) # Encode rest)"

definition CorruptInputError :: "nat \<Rightarrow> string" where
  "CorruptInputError n = ''illegal base64 data at input byte '' @ fmt_uint n"

text \<open>
  The bytes of one quantum.  \<open>dbuf\<close> holds the 6-bit values read so far (2, 3 or 4
  of them); the places of the array that were not reached are zero.
\<close>

definition quantum :: "nat list \<Rightarrow> string" where
  "quantum dbuf =
     (let d = (\<lambda>i. if i < length dbuf then dbuf ! i else 0);
          val = d 0 * 262144 + d 1 * 4096 + d 2 * 64 + d 3
      in take (length dbuf - 1)
           [byte (val div 65536 mod 256), byte (val div 256 mod 256), byte (val mod 256)])"

text \<open>
  \<open>decode_from src si dbuf out\<close>: \<open>src\<close> is what is left of the input, \<open>si\<close> the
  offset of its head in the whole input, \<open>dbuf\<close> the open quantum, \<open>out\<close> the bytes
  written so far.
\<close>

fun decode_from :: "string \<Rightarrow> nat \<Rightarrow> nat list \<Rightarrow> string \<Rightarrow> string + string" where
  "decode_from [] si dbuf out =
     (if dbuf = [] then Inr out
      else if length dbuf = 1 then Inl (CorruptInputError (si - 1))
      else Inr (out @ quantum dbuf))"
| "decode_from (c # cs) si dbuf out =
     (case decodeMap c of
        Some v \<Rightarrow>
          (if length dbuf = 3 then decode_from cs (Suc si) [] (out @ quantum (dbuf @ [v]))
           else decode_from cs (Suc si) (dbuf @ [v]) out)
      | None \<Rightarrow>
          (if c = CHR 0x0A \<or> c = CHR 0x0D then decode_from cs (Suc si) dbuf out
           else Inl (CorruptInputError si)))"

definition Decode :: "string \<Rightarrow> string + string" where
  "Decode src = decode_from src 0 [] []"

text \<open>
  \<open>Decode(dst, src)\<close> writes into the front of \<open>dst\<close> and leaves the rest of it as
  it was.
\<close>

definition write_into :: "string \<Rightarrow> string \<Rightarrow> string" where
  "write_into dst bs = bs @ drop (length bs) dst"

subsection \<open>packet.go: the decoded shapes\<close>

record typePacket =
  tp_Type :: string

record response =
  resp_Type :: string
  resp_Pc :: "32 word option"
  resp_Error :: "string option"

record serverhelloObj =
  Cipher :: "string option"

record serverhelloPacket =
  sh_Type :: string
  sh_Obj :: serverhelloObj

subsection \<open>player.go: the decoded shapes\<close>

text \<open>
  A pointer field is an option.  In \<open>attackResp\<close>, \<open>radarResp\<close>, \<open>scoutResp\<close>,
  \<open>watchResp\<close> and \<open>healthResp\<close> the field \<open>Obj\<close> is a pointer to a struct with
  one pointer field, hence an option of an option.
\<close>

record errorResp =
  er_Error :: "string option"

record attackResp =
  ar_Obj :: "int option option"
  ar_Error :: "string option"

record radarResp =
  rr_Obj :: "int option option"
  rr_Error :: "string option"

record watchResp =
  wr_Obj :: "int list list option option"
  wr_Error :: "string option"

record scoutResp =
  sr_Obj :: "int option option"
  sr_Error :: "string option"

record healthResp =
  hr_Obj :: "int option option"

subsection \<open>game.go: the data\<close>

record roundInformation =
  Ticket :: string
  AesKey :: string
  IPV4 :: string
  IPV6 :: string
  Port :: int
  ri_Error :: "string option"

datatype aes_block = AesBlock string

datatype cipher_AEAD = GCM aes_block

datatype net_Conn = TheConn

datatype bufio_Reader = TheReader

datatype Player_ptr = ThePlayer

text \<open>
  The struct \<open>Game\<close>.  The pointers \<open>conn\<close>, \<open>buf\<close> and \<open>Player\<close> and the
  interface value \<open>gcm\<close> are nil (\<open>None\<close>) or set; what the connection holds is
  in the \<open>world\<close> below.  The struct \<open>Player\<close> has the back pointer to its game
  as its only field.
\<close>

record Game =
  conn :: "net_Conn option"
  buf :: "bufio_Reader option"
  gcm :: "cipher_AEAD option"
  pc :: "32 word"
  Encrypted :: bool
  Player :: "Player_ptr option"

subsection \<open>What the program is linked against, and what it talks to\<close>

text \<open>
  The libraries the source calls and that are not part of it are parameters: the AEAD
  (\<open>NonceSize\<close>, \<open>Seal\<close>, \<open>Open\<close> of the GCM built from the key),
  \<open>json.Unmarshal\<close> at each target type, the HTTP request, the key decoding and the
  dial.  Every theorem below holds for all of them, unless it states what it assumes.
\<close>

record env =
  http_Get :: "string \<Rightarrow> string + string"
  json_roundInformation :: "string \<Rightarrow> string + roundInformation"
  Std_DecodeString :: "string \<Rightarrow> string + string"
  aes_NewCipher :: "string \<Rightarrow> string + aes_block"
  cipher_NewGCM :: "aes_block \<Rightarrow> string + cipher_AEAD"
  net_Dial :: "string \<Rightarrow> string option"
  NonceSize :: "cipher_AEAD \<Rightarrow> nat"
  Seal :: "cipher_AEAD \<Rightarrow> string \<Rightarrow> string \<Rightarrow> string"
  Open :: "cipher_AEAD \<Rightarrow> string \<Rightarrow> string \<Rightarrow> string + string"
  json_typePacket :: "string \<Rightarrow> string + typePacket"
  json_response :: "string \<Rightarrow> string + response"
  json_serverhelloPacket :: "string \<Rightarrow> string + serverhelloPacket"
  json_errorResp :: "string \<Rightarrow> string + errorResp"
  json_attackResp :: "string \<Rightarrow> string + attackResp"
  json_radarResp :: "string \<Rightarrow> string + radarResp"
  json_watchResp :: "string \<Rightarrow> string + watchResp"
  json_scoutResp :: "string \<Rightarrow> string + scoutResp"
  json_healthResp :: "string \<Rightarrow> string + healthResp"

text \<open>
  The world outside the process: the bytes the server sends on the connection, in
  order (\<open>net_in\<close>); the buffers handed to \<open>Write\<close> so far (\<open>net_out\<close>); the
  errors of the coming \<open>Write\<close> calls (\<open>net_write_errs\<close>, \<open>None\<close> and the empty
  list for a write that succeeds); what \<open>Close\<close> on the connection returns and
  whether it was called; the bytes \<open>rand.Reader\<close> will give.
\<close>

record world =
  net_in :: string
  net_out :: "string list"
  net_write_errs :: "string option list"
  net_close_err :: "string option"
  net_closed :: bool
  rand :: string

subsection \<open>Reading and writing the world\<close>

text \<open>
  \<open>io.ReadFull(rand.Reader, b)\<close> for a buffer of \<open>n\<close> bytes: all of them, or an
  error when the source ends first.
\<close>

definition rand_ReadFull :: "nat \<Rightarrow> world \<Rightarrow> (string + string) \<times> world" where
  "rand_ReadFull n w =
     (if n \<le> length (rand w)
      then (Inr (take n (rand w)), w\<lparr>rand := drop n (rand w)\<rparr>)
      else (Inl (if rand w = [] then ''EOF'' else ''unexpected EOF''), w\<lparr>rand := []\<rparr>))"

text \<open>\<open>(*g.conn).Write(b)\<close> on a connection that is there.\<close>

definition conn_Write :: "string \<Rightarrow> world \<Rightarrow> string option \<times> world" where
  "conn_Write b w =
     (case net_write_errs w of
        [] \<Rightarrow> (None, w\<lparr>net_out := net_out w @ [b]\<rparr>)
      | None # es \<Rightarrow> (None, w\<lparr>net_out := net_out w @ [b], net_write_errs := es\<rparr>)
      | Some e # es \<Rightarrow> (Some e, w\<lparr>net_write_errs := es\<rparr>))"

text \<open>
  \<open>g.buf.ReadBytes('\n')\<close> on a reader that is there: the bytes up to and including
  the first line feed, or the error that ends the stream when there is none.
\<close>

definition ReadBytes :: "world \<Rightarrow> (string + string) \<times> world" where
  "ReadBytes w =
     (if CHR 0x0A \<in> set (net_in w)
      then (Inr (takeWhile (\<lambda>c. c \<noteq> CHR 0x0A) (net_in w) @ [CHR 0x0A]),
            w\<lparr>net_in := tl (dropWhile (\<lambda>c. c \<noteq> CHR 0x0A) (net_in w))\<rparr>)
      else (Inl ''EOF'', w\<lparr>net_in := []\<rparr>))"

subsection \<open>game.go: encrypt and decrypt\<close>

text \<open>
  \<open>g.gcm.NonceSize()\<close> on the nil interface panics.  The nonce is as long as the
  cipher says and is put in front of what \<open>Seal\<close> gives.
\<close>

definition encrypt :: "env \<Rightarrow> Game \<Rightarrow> string \<Rightarrow> world \<Rightarrow> string res \<times> world" where
  "encrypt E g plain w =
     (case gcm g of
        None \<Rightarrow> (Panic, w)
      | Some a \<Rightarrow>
          (case rand_ReadFull (NonceSize E a) w of
             (Inl e, w') \<Rightarrow>
               (Err (''vikebot: unable to create nonce value for encryption, err = '' @ e), w')
           | (Inr nonce, w') \<Rightarrow> (Ok (nonce @ Seal E a nonce plain), w')))"

definition encrypt64 :: "env \<Rightarrow> Game \<Rightarrow> string \<Rightarrow> world \<Rightarrow> string res \<times> world" where
  "encrypt64 E g plain w =
     (case encrypt E g plain w of
        (Err e, w') \<Rightarrow> (Err e, w')
      | (Panic, w') \<Rightarrow> (Panic, w')
      | (Ok cipher, w') \<Rightarrow>
          (Ok (write_into (replicate (EncodedLen (length cipher)) (CHR 0x00)) (Encode cipher)), w'))"

definition encryptStr :: "env \<Rightarrow> Game \<Rightarrow> string \<Rightarrow> world \<Rightarrow> string res \<times> world" where
  "encryptStr E g plain w =
     (case encrypt E g plain w of
        (Err e, w') \<Rightarrow> (Err e, w')
      | (Panic, w') \<Rightarrow> (Panic, w')
      | (Ok cipherBuf, w') \<Rightarrow> (Ok (Encode cipherBuf), w'))"

text \<open>
  \<open>cipher[0:n]\<close> needs \<open>n\<close> within the capacity and \<open>cipher[n:]\<close> needs \<open>n\<close>
  within the length, which is at most the capacity: the two slice expressions panic
  exactly when the slice is shorter than the nonce.
\<close>

definition decrypt :: "env \<Rightarrow> Game \<Rightarrow> string \<Rightarrow> string res" where
  "decrypt E g cipher =
     (case gcm g of
        None \<Rightarrow> Panic
      | Some a \<Rightarrow>
          (if NonceSize E a \<le> length cipher
           then (case Open E a (take (NonceSize E a) cipher) (drop (NonceSize E a) cipher) of
                   Inl e \<Rightarrow> Err e
                 | Inr plain \<Rightarrow> Ok plain)
           else Panic))"

text \<open>
  The buffer is made \<open>DecodedLen(len(cipher64))\<close> long, the number of bytes that
  \<open>Decode\<close> wrote is dropped, and the whole buffer goes to \<open>decrypt\<close>.
\<close>

definition decrypt64 :: "env \<Rightarrow> Game \<Rightarrow> string \<Rightarrow> string res" where
  "decrypt64 E g cipher64 =
     (case Decode cipher64 of
        Inl e \<Rightarrow> Err e
      | Inr bs \<Rightarrow>
          decrypt E g (write_into (replicate (DecodedLen (length cipher64)) (CHR 0x00)) bs))"

definition decryptStr :: "env \<Rightarrow> Game \<Rightarrow> string \<Rightarrow> string res" where
  "decryptStr E g cipher =
     (case Decode cipher of
        Inl e \<Rightarrow> Err e
      | Inr cipherBuf \<Rightarrow> decrypt E g cipherBuf)"

subsection \<open>game.go: write and read\<close>

text \<open>
  The method \<open>write\<close> is \<open>write_g\<close> here, since \<open>write\<close> is a command of
  Isar.  Neither \<open>write\<close> nor \<open>read\<close> assigns to a field of the game.
\<close>

definition write_g :: "env \<Rightarrow> string \<Rightarrow> Game \<Rightarrow> world \<Rightarrow> unit res \<times> world" where
  "write_g E b g w =
     (case (if Encrypted g
            then (case encrypt64 E g b w of
                    (Err e, w1) \<Rightarrow> (Err (''vikebot: encryption failed - '' @ e), w1)
                  | (Panic, w1) \<Rightarrow> (Panic, w1)
                  | (Ok cipher, w1) \<Rightarrow> (Ok cipher, w1))
            else (Ok b, w)) of
        (Err e, w1) \<Rightarrow> (Err e, w1)
      | (Panic, w1) \<Rightarrow> (Panic, w1)
      | (Ok b', w1) \<Rightarrow>
          (case conn g of
             None \<Rightarrow> (Panic, w1)
           | Some c \<Rightarrow>
               (case conn_Write (b' @ [CHR 0x0A]) w1 of
                  (Some e, w2) \<Rightarrow> (Err (''vikebot: '' @ e), w2)
                | (None, w2) \<Rightarrow> (Ok (), w2))))"

text \<open>
  \<open>read\<close> returns the packet type and the buffer.  The delimiter is cut off inside
  the branch for an encrypted game only.
\<close>

definition read :: "env \<Rightarrow> bool \<Rightarrow> Game \<Rightarrow> world \<Rightarrow> (string \<times> string) res \<times> world" where
  "read E extractPt g w =
     (case buf g of
        None \<Rightarrow> (Panic, w)
      | Some r \<Rightarrow>
          (case ReadBytes w of
             (Inl e, w1) \<Rightarrow> (Err e, w1)
           | (Inr line, w1) \<Rightarrow>
               (case (if Encrypted g
                      then (case decrypt64 E g (butlast line) of
                              Err e \<Rightarrow> Err (''vikebot: unsecure connection - '' @ e)
                            | Panic \<Rightarrow> Panic
                            | Ok plain \<Rightarrow> Ok plain)
                      else Ok line) of
                  Err e \<Rightarrow> (Err e, w1)
                | Panic \<Rightarrow> (Panic, w1)
                | Ok b \<Rightarrow>
                    (if \<not> extractPt then (Ok ([], b), w1)
                     else (case json_typePacket E b of
                             Inl e \<Rightarrow> (Err (''vikebot: '' @ e), w1)
                           | Inr t \<Rightarrow> (Ok (tp_Type t, b), w1))))))"

subsection \<open>game.go: one request and its response\<close>

definition trivialActionResp ::
  "env \<Rightarrow> string \<Rightarrow> string \<Rightarrow> Game \<Rightarrow> world \<Rightarrow> string res \<times> Game \<times> world" where
  "trivialActionResp E pt packet g w =
     (case write_g E packet g w of
        (Err e, w1) \<Rightarrow> (Err e, g, w1)
      | (Panic, w1) \<Rightarrow> (Panic, g, w1)
      | (Ok u, w1) \<Rightarrow>
          (case read E False g w1 of
             (Err e, w2) \<Rightarrow> (Err e, g, w2)
           | (Panic, w2) \<Rightarrow> (Panic, g, w2)
           | (Ok (t, b), w2) \<Rightarrow>
               (case json_response E b of
                  Inl e \<Rightarrow> (Err (''vikebot: '' @ e), g, w2)
                | Inr resp \<Rightarrow>
                    (if resp_Type resp \<noteq> pt
                     then (case resp_Error resp of
                             Some m \<Rightarrow>
                               (if resp_Type resp = ''unknown'' \<or> resp_Type resp = ''forbidden''
                                then (Err (''vikebot: '' @ m), g, w2)
                                else (Err ''vikebot: invalid server response. unexpected packet'', g, w2))
                           | None \<Rightarrow>
                               (Err ''vikebot: invalid server response. unexpected packet'', g, w2))
                     else if Encrypted g
                     then (let g' = g\<lparr>pc := pc g + 1\<rparr>
                           in case resp_Pc resp of
                                None \<Rightarrow>
                                  (Err ''vikebot: invalid server response. missing pc'', g', w2)
                              | Some v \<Rightarrow>
                                  (if v \<noteq> pc g'
                                   then (Err ''vikebot: invalid server response. pc mismatch'', g', w2)
                                   else (Ok b, g', w2)))
                     else (Ok b, g, w2)))))"

definition trivialAction ::
  "env \<Rightarrow> string \<Rightarrow> string \<Rightarrow> Game \<Rightarrow> world \<Rightarrow> unit res \<times> Game \<times> world" where
  "trivialAction E pt packet g w =
     (case trivialActionResp E pt packet g w of
        (Err e, g', w') \<Rightarrow> (Err e, g', w')
      | (Panic, g', w') \<Rightarrow> (Panic, g', w')
      | (Ok b, g', w') \<Rightarrow> (Ok (), g', w'))"

subsection \<open>packet.go: the packets of the handshake\<close>

definition loginPacket :: "string \<Rightarrow> string" where
  \<open>loginPacket roundticket = ''{"type":"login","obj":{"roundticket":"'' @ roundticket @ ''"}}''\<close>

definition clienthelloPacket :: "string \<Rightarrow> string" where
  \<open>clienthelloPacket cipher = ''{"type":"clienthello","obj":{"cipher":"'' @ cipher @ ''"}}''\<close>

definition agreeconnPacket :: "Game \<Rightarrow> string \<times> Game" where
  \<open>agreeconnPacket g =
     (let g' = g\<lparr>pc := pc g + 1\<rparr>
      in (''{"type":"agreeconn","pc":'' @ fmt_uint (unat (pc g')) @ '',"obj":{}}'', g'))\<close>

subsection \<open>game.go: Close\<close>

text \<open>
  The fields are cleared first; \<open>(*conn).Close()\<close> then dereferences the pointer that
  was in \<open>g.conn\<close>, nil or not.  The field \<open>pc\<close> is not assigned.
\<close>

definition Close :: "Game \<Rightarrow> world \<Rightarrow> unit res \<times> Game \<times> world" where
  "Close g w =
     (let g1 = g\<lparr>buf := None, gcm := None, Encrypted := False, Player := None\<rparr>;
          c = conn g1;
          g2 = g1\<lparr>conn := None\<rparr>
      in case c of
           None \<Rightarrow> (Panic, g2, w)
         | Some k \<Rightarrow>
             ((case net_close_err w of None \<Rightarrow> Ok () | Some e \<Rightarrow> Err e),
              g2, w\<lparr>net_closed := True\<rparr>))"

subsection \<open>player.go: the commands\<close>

text \<open>
  Every method of \<open>*Player\<close> works on the game \<open>p.g\<close> its receiver points to; the
  functions below take that game.
\<close>

definition Rotate :: "env \<Rightarrow> string \<Rightarrow> Game \<Rightarrow> world \<Rightarrow> unit res \<times> Game \<times> world" where
  \<open>Rotate E angle g w =
     (let g1 = g\<lparr>pc := pc g + 1\<rparr>
      in case trivialActionResp E ''rotate''
                (''{"type":"rotate","pc":'' @ fmt_uint (unat (pc g1))
                 @ '',"obj":{"angle":"'' @ angle @ ''"}}'') g1 w of
           (Err e, g2, w2) \<Rightarrow> (Err (''vikebot: '' @ e), g2, w2)
         | (Panic, g2, w2) \<Rightarrow> (Panic, g2, w2)
         | (Ok b, g2, w2) \<Rightarrow>
             (case json_errorResp E b of
                Inl e \<Rightarrow> (Err (''vikebot: '' @ e), g2, w2)
              | Inr er \<Rightarrow>
                  (case er_Error er of
                     Some m \<Rightarrow> (Err (''vikebot: '' @ m), g2, w2)
                   | None \<Rightarrow> (Ok (), g2, w2))))\<close>

definition Move :: "env \<Rightarrow> string \<Rightarrow> Game \<Rightarrow> world \<Rightarrow> unit res \<times> Game \<times> world" where
  \<open>Move E direction g w =
     (let g1 = g\<lparr>pc := pc g + 1\<rparr>
      in case trivialActionResp E ''move''
                (''{"type":"move","pc":'' @ fmt_uint (unat (pc g1))
                 @ '',"obj":{"direction":"'' @ direction @ ''"}}'') g1 w of
           (Err e, g2, w2) \<Rightarrow> (Err (''vikebot: '' @ e), g2, w2)
         | (Panic, g2, w2) \<Rightarrow> (Panic, g2, w2)
         | (Ok b, g2, w2) \<Rightarrow>
             (case json_errorResp E b of
                Inl e \<Rightarrow> (Err (''vikebot: '' @ e), g2, w2)
              | Inr er \<Rightarrow>
                  (case er_Error er of
                     Some m \<Rightarrow> (Err (''vikebot: '' @ m), g2, w2)
                   | None \<Rightarrow> (Ok (), g2, w2))))\<close>

definition Attack :: "env \<Rightarrow> Game \<Rightarrow> world \<Rightarrow> int res \<times> Game \<times> world" where
  \<open>Attack E g w =
     (let g1 = g\<lparr>pc := pc g + 1\<rparr>
      in case trivialActionResp E ''attack''
                (''{"type":"attack","pc":'' @ fmt_uint (unat (pc g1)) @ '',"obj":null}'') g1 w of
           (Err e, g2, w2) \<Rightarrow> (Err e, g2, w2)
         | (Panic, g2, w2) \<Rightarrow> (Panic, g2, w2)
         | (Ok b, g2, w2) \<Rightarrow>
             (case json_attackResp E b of
                Inl e \<Rightarrow> (Err (''vikebot: '' @ e), g2, w2)
              | Inr ar \<Rightarrow>
                  (case ar_Error ar of
                     Some m \<Rightarrow> (Err (''vikebot: '' @ m), g2, w2)
                   | None \<Rightarrow>
                       (case ar_Obj ar of
                          Some (Some health) \<Rightarrow> (Ok health, g2, w2)
                        | _ \<Rightarrow> (Err ''vikebot: invalid attack-response packet'', g2, w2)))))\<close>

definition Radar :: "env \<Rightarrow> Game \<Rightarrow> world \<Rightarrow> int res \<times> Game \<times> world" where
  \<open>Radar E g w =
     (let g1 = g\<lparr>pc := pc g + 1\<rparr>
      in case trivialActionResp E ''radar''
                (''{"type":"radar","pc":'' @ fmt_uint (unat (pc g1)) @ '',"obj":null}'') g1 w of
           (Err e, g2, w2) \<Rightarrow> (Err e, g2, w2)
         | (Panic, g2, w2) \<Rightarrow> (Panic, g2, w2)
         | (Ok b, g2, w2) \<Rightarrow>
             (case json_radarResp E b of
                Inl e \<Rightarrow> (Err (''vikebot: '' @ e), g2, w2)
              | Inr rr \<Rightarrow>
                  (case rr_Error rr of
                     Some m \<Rightarrow> (Err (''vikebot: '' @ m), g2, w2)
                   | None \<Rightarrow>
                       (case rr_Obj rr of
                          Some (Some count) \<Rightarrow> (Ok count, g2, w2)
                        | _ \<Rightarrow> (Err ''vikebot: invalid radar-response packet'', g2, w2)))))\<close>

definition Watch :: "env \<Rightarrow> Game \<Rightarrow> world \<Rightarrow> int list list res \<times> Game \<times> world" where
  \<open>Watch E g w =
     (let g1 = g\<lparr>pc := pc g + 1\<rparr>
      in case trivialActionResp E ''watch''
                (''{"type":"watch","pc":'' @ fmt_uint (unat (pc g1)) @ '',"obj":null}'') g1 w of
           (Err e, g2, w2) \<Rightarrow> (Err (''vikebot: '' @ e), g2, w2)
         | (Panic, g2, w2) \<Rightarrow> (Panic, g2, w2)
         | (Ok b, g2, w2) \<Rightarrow>
             (case json_watchResp E b of
                Inl e \<Rightarrow> (Err (''vikebot: '' @ e), g2, w2)
              | Inr wr \<Rightarrow>
                  (case wr_Error wr of
                     Some m \<Rightarrow> (Err (''vikebot: '' @ m), g2, w2)
                   | None \<Rightarrow>
                       (case wr_Obj wr of
                          Some (Some healthMatrix) \<Rightarrow> (Ok healthMatrix, g2, w2)
                        | _ \<Rightarrow> (Err ''vikebot: invalid watch-response packet'', g2, w2)))))\<close>

definition Scout :: "env \<Rightarrow> int \<Rightarrow> Game \<Rightarrow> world \<Rightarrow> int res \<times> Game \<times> world" where
  \<open>Scout E distance g w =
     (let g1 = g\<lparr>pc := pc g + 1\<rparr>
      in case trivialActionResp E ''scout''
                (''{"type":"scout","pc":'' @ fmt_uint (unat (pc g1))
                 @ '',"obj":{"distance":'' @ fmt_int distance @ ''}}'') g1 w of
           (Err e, g2, w2) \<Rightarrow> (Err e, g2, w2)
         | (Panic, g2, w2) \<Rightarrow> (Panic, g2, w2)
         | (Ok b, g2, w2) \<Rightarrow>
             (case json_scoutResp E b of
                Inl e \<Rightarrow> (Err (''vikebot: '' @ e), g2, w2)
              | Inr sr \<Rightarrow>
                  (case sr_Error sr of
                     Some m \<Rightarrow> (Err (''vikebot: '' @ m), g2, w2)
                   | None \<Rightarrow>
                       (case sr_Obj sr of
                          Some (Some count) \<Rightarrow> (Ok count, g2, w2)
                        | _ \<Rightarrow> (Err ''vikebot: invalid scout-response packet'', g2, w2)))))\<close>

definition Defend :: "env \<Rightarrow> Game \<Rightarrow> world \<Rightarrow> unit res \<times> Game \<times> world" where
  \<open>Defend E g w =
     (let g1 = g\<lparr>pc := pc g + 1\<rparr>
      in trivialAction E ''defend''
           (''{"type":"defend","pc":'' @ fmt_uint (unat (pc g1)) @ '',"obj":null}'') g1 w)\<close>

definition Undefend :: "env \<Rightarrow> Game \<Rightarrow> world \<Rightarrow> unit res \<times> Game \<times> world" where
  \<open>Undefend E g w =
     (let g1 = g\<lparr>pc := pc g + 1\<rparr>
      in trivialAction E ''undefend''
           (''{"type":"undefend","pc":'' @ fmt_uint (unat (pc g1)) @ '',"obj":null}'') g1 w)\<close>

definition GetHealth :: "env \<Rightarrow> Game \<Rightarrow> world \<Rightarrow> int res \<times> Game \<times> world" where
  \<open>GetHealth E g w =
     (let g1 = g\<lparr>pc := pc g + 1\<rparr>
      in case trivialActionResp E ''health''
                (''{"type":"health","pc":'' @ fmt_uint (unat (pc g1)) @ '',"obj":null}'') g1 w of
           (Err e, g2, w2) \<Rightarrow> (Err e, g2, w2)
         | (Panic, g2, w2) \<Rightarrow> (Panic, g2, w2)
         | (Ok b, g2, w2) \<Rightarrow>
             (case json_healthResp E b of
                Inl e \<Rightarrow> (Err (''vikebot: '' @ e), g2, w2)
              | Inr hr \<Rightarrow>
                  (case hr_Obj hr of
                     Some (Some health) \<Rightarrow> (Ok health, g2, w2)
                   | _ \<Rightarrow> (Err ''vikebot: invalid health-response packet'', g2, w2))))\<close>

text \<open>
  The nine commands as one type, so that a statement can range over all of them and a
  client can be a list of calls.  \<open>command\<close> runs the method a call names;
  \<open>commands\<close> runs a list of calls and stops at the first that does not return nil.
\<close>

datatype call =
  CRotate string | CMove string | CAttack | CRadar | CWatch | CScout int
| CDefend | CUndefend | CGetHealth

datatype reply = Done | Number int | Matrix "int list list"

definition lift_res :: "('a \<Rightarrow> reply) \<Rightarrow> 'a res \<times> Game \<times> world \<Rightarrow> reply res \<times> Game \<times> world" where
  "lift_res f r =
     (case r of
        (Ok v, g, w) \<Rightarrow> (Ok (f v), g, w)
      | (Err e, g, w) \<Rightarrow> (Err e, g, w)
      | (Panic, g, w) \<Rightarrow> (Panic, g, w))"

fun command :: "env \<Rightarrow> call \<Rightarrow> Game \<Rightarrow> world \<Rightarrow> reply res \<times> Game \<times> world" where
  "command E (CRotate angle) g w = lift_res (\<lambda>u. Done) (Rotate E angle g w)"
| "command E (CMove direction) g w = lift_res (\<lambda>u. Done) (Move E direction g w)"
| "command E CAttack g w = lift_res Number (Attack E g w)"
| "command E CRadar g w = lift_res Number (Radar E g w)"
| "command E CWatch g w = lift_res Matrix (Watch E g w)"
| "command E (CScout distance) g w = lift_res Number (Scout E distance g w)"
| "command E CDefend g w = lift_res (\<lambda>u. Done) (Defend E g w)"
| "command E CUndefend g w = lift_res (\<lambda>u. Done) (Undefend E g w)"
| "command E CGetHealth g w = lift_res Number (GetHealth E g w)"

fun commands :: "env \<Rightarrow> call list \<Rightarrow> Game \<Rightarrow> world \<Rightarrow> reply list res \<times> Game \<times> world" where
  "commands E [] g w = (Ok [], g, w)"
| "commands E (c # cs) g w =
     (case command E c g w of
        (Err e, g1, w1) \<Rightarrow> (Err e, g1, w1)
      | (Panic, g1, w1) \<Rightarrow> (Panic, g1, w1)
      | (Ok r, g1, w1) \<Rightarrow>
          (case commands E cs g1 w1 of
             (Ok rs, g2, w2) \<Rightarrow> (Ok (r # rs), g2, w2)
           | (Err e, g2, w2) \<Rightarrow> (Err e, g2, w2)
           | (Panic, g2, w2) \<Rightarrow> (Panic, g2, w2)))"

text \<open>The type string each command expects in its response.\<close>

fun expected_type :: "call \<Rightarrow> string" where
  "expected_type (CRotate angle) = ''rotate''"
| "expected_type (CMove direction) = ''move''"
| "expected_type CAttack = ''attack''"
| "expected_type CRadar = ''radar''"
| "expected_type CWatch = ''watch''"
| "expected_type (CScout distance) = ''scout''"
| "expected_type CDefend = ''defend''"
| "expected_type CUndefend = ''undefend''"
| "expected_type CGetHealth = ''health''"

text \<open>The bytes each command hands to \<open>write\<close>, for the counter value they carry.\<close>

fun packet_of :: "call \<Rightarrow> 32 word \<Rightarrow> string" where
  \<open>packet_of (CRotate angle) n =
     ''{"type":"rotate","pc":'' @ fmt_uint (unat n) @ '',"obj":{"angle":"'' @ angle @ ''"}}''\<close>
| \<open>packet_of (CMove direction) n =
     ''{"type":"move","pc":'' @ fmt_uint (unat n) @ '',"obj":{"direction":"'' @ direction @ ''"}}''\<close>
| \<open>packet_of CAttack n = ''{"type":"attack","pc":'' @ fmt_uint (unat n) @ '',"obj":null}''\<close>
| \<open>packet_of CRadar n = ''{"type":"radar","pc":'' @ fmt_uint (unat n) @ '',"obj":null}''\<close>
| \<open>packet_of CWatch n = ''{"type":"watch","pc":'' @ fmt_uint (unat n) @ '',"obj":null}''\<close>
| \<open>packet_of (CScout distance) n =
     ''{"type":"scout","pc":'' @ fmt_uint (unat n) @ '',"obj":{"distance":'' @ fmt_int distance @ ''}}''\<close>
| \<open>packet_of CDefend n = ''{"type":"defend","pc":'' @ fmt_uint (unat n) @ '',"obj":null}''\<close>
| \<open>packet_of CUndefend n = ''{"type":"undefend","pc":'' @ fmt_uint (unat n) @ '',"obj":null}''\<close>
| \<open>packet_of CGetHealth n = ''{"type":"health","pc":'' @ fmt_uint (unat n) @ '',"obj":null}''\<close>

subsection \<open>game.go: Join\<close>

text \<open>
  \<open>Join\<close> is one function in the source.  Here it is the sequence of its blocks, each
  a definition: the round information, the key and the dial (\<open>join_connect\<close>), the
  login packet, the client and server hello (\<open>join_hello\<close>), the initial packet
  counter (\<open>join_initialpc\<close>) and the agreement (\<open>join_agree\<close>);
  \<open>join_synced\<close> is \<open>Join\<close> up to the point where the counter of the server is
  taken over.  When a block fails \<open>Join\<close> returns nil for the game, so only the
  error is kept.
\<close>

definition join_connect :: "env \<Rightarrow> string \<Rightarrow> (roundInformation \<times> Game) res" where
  "join_connect E authtoken =
     (case http_Get E (''https://api.vikebot.com/v1/roundentry/connectinfo/'' @ authtoken) of
        Inl e \<Rightarrow> Err (''vikebot: '' @ e)
      | Inr body \<Rightarrow>
     (case json_roundInformation E body of
        Inl e \<Rightarrow> Err (''vikebot: '' @ e)
      | Inr ri \<Rightarrow>
     (case ri_Error ri of
        Some m \<Rightarrow> Err (''vikebot: '' @ m)
      | None \<Rightarrow>
     (case Std_DecodeString E (AesKey ri) of
        Inl e \<Rightarrow> Err (''vikebot: '' @ e)
      | Inr keyBuf \<Rightarrow>
     (case aes_NewCipher E keyBuf of
        Inl e \<Rightarrow> Err (''vikebot: '' @ e)
      | Inr block \<Rightarrow>
     (case cipher_NewGCM E block of
        Inl e \<Rightarrow> Err (''vikebot: '' @ e)
      | Inr a \<Rightarrow>
     (case net_Dial E (IPV4 ri @ '':'' @ fmt_int (Port ri)) of
        Some e \<Rightarrow> Err (''vikebot: '' @ e)
      | None \<Rightarrow>
          Ok (ri, \<lparr>conn = Some TheConn, buf = Some TheReader, gcm = Some a,
                   pc = 0, Encrypted = False, Player = None\<rparr>))))))))"

text \<open>\<open>binary.BigEndian.Uint64\<close> of the eight challenge bytes.\<close>

definition Uint64 :: "string \<Rightarrow> nat" where
  "Uint64 b = foldl (\<lambda>acc c. acc * 256 + of_char c) 0 b"

definition join_hello :: "env \<Rightarrow> Game \<Rightarrow> world \<Rightarrow> Game res \<times> world" where
  "join_hello E g w =
     (case rand_ReadFull 8 w of
        (Inl e, w1) \<Rightarrow> (Err (''vikebot: '' @ e), w1)
      | (Inr challengeBuf, w1) \<Rightarrow>
     (let challengeStr = fmt_uint (Uint64 challengeBuf)
      in case encryptStr E g (''clienthello:'' @ challengeStr) w1 of
        (Err e, w2) \<Rightarrow> (Err (''vikebot: '' @ e), w2)
      | (Panic, w2) \<Rightarrow> (Panic, w2)
      | (Ok clienthelloCipher, w2) \<Rightarrow>
     (case write_g E (clienthelloPacket clienthelloCipher) g w2 of
        (Err e, w3) \<Rightarrow> (Err e, w3)
      | (Panic, w3) \<Rightarrow> (Panic, w3)
      | (Ok u, w3) \<Rightarrow>
     (case read E True g w3 of
        (Err e, w4) \<Rightarrow> (Err e, w4)
      | (Panic, w4) \<Rightarrow> (Panic, w4)
      | (Ok (pt, b), w4) \<Rightarrow>
     (case (if pt \<noteq> ''serverhello''
            then (case json_response E b of
                    Inl e \<Rightarrow> Some (''vikebot: '' @ e)
                  | Inr resp \<Rightarrow>
                      (case resp_Error resp of
                         Some m \<Rightarrow> Some (''vikebot: '' @ m)
                       | None \<Rightarrow> None))
            else None) of
        Some e \<Rightarrow> (Err e, w4)
      | None \<Rightarrow>
     (case json_serverhelloPacket E b of
        Inl e \<Rightarrow> (Err (''vikebot: '' @ e), w4)
      | Inr serverhello \<Rightarrow>
     (case Cipher (sh_Obj serverhello) of
        None \<Rightarrow> (Err ''vikebot: invalid server response serverhello.Obj.Cipher == nil'', w4)
      | Some c \<Rightarrow>
     (case decryptStr E g c of
        Err e \<Rightarrow> (Err e, w4)
      | Panic \<Rightarrow> (Panic, w4)
      | Ok plainServerhello \<Rightarrow>
          (if plainServerhello \<noteq> ''serverhello:'' @ challengeStr
           then (Err (''vikebot: invalid plain text - expecting '' @ [CHR 0x27]
                      @ ''serverhello:'' @ challengeStr @ [CHR 0x27]), w4)
           else (Ok (g\<lparr>Encrypted := True\<rparr>), w4))))))))))"

definition join_initialpc :: "env \<Rightarrow> Game \<Rightarrow> world \<Rightarrow> Game res \<times> world" where
  "join_initialpc E g w =
     (case read E True g w of
        (Err e, w1) \<Rightarrow> (Err e, w1)
      | (Panic, w1) \<Rightarrow> (Panic, w1)
      | (Ok (pt, b), w1) \<Rightarrow>
          (if pt \<noteq> ''initialpc''
           then (Err ''vikebot: invalid server response. expected initialpc packet'', w1)
           else (case json_response E b of
                   Inl e \<Rightarrow> (Err (''vikebot: '' @ e), w1)
                 | Inr resp \<Rightarrow>
                     (case resp_Pc resp of
                        None \<Rightarrow>
                          (Err ''vikebot: invalid server response. expected pc in initialpc packet'', w1)
                      | Some v \<Rightarrow> (Ok (g\<lparr>pc := v\<rparr>), w1)))))"

definition join_agree :: "env \<Rightarrow> Game \<Rightarrow> world \<Rightarrow> Game res \<times> world" where
  "join_agree E g w =
     (case agreeconnPacket g of
        (packet, g1) \<Rightarrow>
          (case trivialAction E ''agreeconn'' packet g1 w of
             (Err e, g2, w2) \<Rightarrow> (Err e, w2)
           | (Panic, g2, w2) \<Rightarrow> (Panic, w2)
           | (Ok u, g2, w2) \<Rightarrow> (Ok (g2\<lparr>Player := Some ThePlayer\<rparr>), w2)))"

definition join_synced :: "env \<Rightarrow> string \<Rightarrow> world \<Rightarrow> Game res \<times> world" where
  "join_synced E authtoken w =
     (case join_connect E authtoken of
        Err e \<Rightarrow> (Err e, w)
      | Panic \<Rightarrow> (Panic, w)
      | Ok (ri, g) \<Rightarrow>
     (case trivialAction E ''login'' (loginPacket (Ticket ri)) g w of
        (Err e, g1, w1) \<Rightarrow> (Err e, w1)
      | (Panic, g1, w1) \<Rightarrow> (Panic, w1)
      | (Ok u, g1, w1) \<Rightarrow>
     (case join_hello E g1 w1 of
        (Err e, w2) \<Rightarrow> (Err e, w2)
      | (Panic, w2) \<Rightarrow> (Panic, w2)
      | (Ok g2, w2) \<Rightarrow> join_initialpc E g2 w2)))"

definition Join :: "env \<Rightarrow> string \<Rightarrow> world \<Rightarrow> Game res \<times> world" where
  "Join E authtoken w =
     (case join_synced E authtoken w of
        (Err e, w3) \<Rightarrow> (Err e, w3)
      | (Panic, w3) \<Rightarrow> (Panic, w3)
      | (Ok g3, w3) \<Rightarrow> join_agree E g3 w3)"

subsection \<open>Words for the statements\<close>

text \<open>
  \<open>responded\<close>: the packet was written, a frame was read and decoded, and its type
  is the one the caller expects; that is, \<open>trivialActionResp\<close> got as far as its
  check of the packet counter.  \<open>answered\<close> is the same for a command, which sends
  its packet after it has incremented the counter.
\<close>

definition responded :: "env \<Rightarrow> string \<Rightarrow> string \<Rightarrow> Game \<Rightarrow> world \<Rightarrow> bool" where
  "responded E pt packet g w =
     (case write_g E packet g w of
        (Ok u, w1) \<Rightarrow>
          (case read E False g w1 of
             (Ok (t, b), w2) \<Rightarrow>
               (case json_response E b of Inr resp \<Rightarrow> resp_Type resp = pt | Inl e \<Rightarrow> False)
           | (Err e, w2) \<Rightarrow> False
           | (Panic, w2) \<Rightarrow> False)
      | (Err e, w1) \<Rightarrow> False
      | (Panic, w1) \<Rightarrow> False)"

definition answered :: "env \<Rightarrow> call \<Rightarrow> Game \<Rightarrow> world \<Rightarrow> bool" where
  "answered E c g w =
     responded E (expected_type c) (packet_of c (pc g + 1)) (g\<lparr>pc := pc g + 1\<rparr>) w"

text \<open>
  \<open>Rotate\<close>, \<open>Move\<close> and \<open>Watch\<close> put \<open>vikebot: \<close> in front of an error of
  \<open>trivialActionResp\<close>; the other commands return it as it is.
\<close>

fun wrapped :: "call \<Rightarrow> string \<Rightarrow> string" where
  "wrapped (CRotate angle) e = ''vikebot: '' @ e"
| "wrapped (CMove direction) e = ''vikebot: '' @ e"
| "wrapped CWatch e = ''vikebot: '' @ e"
| "wrapped c e = e"

text \<open>
  A necessary condition for a text to be JSON: every string literal that is opened is
  closed.  The scan is outside a string literal, inside one, or behind a backslash
  inside one.
\<close>

datatype lex = Outside | Inside | Escaped

fun lex_step :: "lex \<Rightarrow> char \<Rightarrow> lex" where
  "lex_step Outside c = (if c = CHR 0x22 then Inside else Outside)"
| "lex_step Inside c =
     (if c = CHR 0x5C then Escaped else if c = CHR 0x22 then Outside else Inside)"
| "lex_step Escaped c = Inside"

definition strings_closed :: "string \<Rightarrow> bool" where
  "strings_closed t = (foldl lex_step Outside t = Outside)"

section \<open>An example environment\<close>

text \<open>
  A small instance of the parameters, for the examples below.  Its AEAD has the nonce
  size of GCM and puts the nonce behind the plain text as the tag, which \<open>Open\<close>
  checks and cuts off.  Its JSON decoders are tables: they are defined on the packets of
  the examples, give what \<open>json.Unmarshal\<close> gives on them, and reject every other
  input.
\<close>

definition ex_key64 :: string where
  "ex_key64 = ''AAAAAAAAAAAAAAAAAAAAAAAAAAAAAAAAAAAAAAAAAAA=''"

definition ex_body :: string where
  \<open>ex_body = ''{"ticket":"T","aes_key":"'' @ ex_key64
     @ ''","ipv4":"127.0.0.1","ipv6":"","port":9999}''\<close>

definition ex_key :: string where
  "ex_key = replicate 32 (CHR 0x00)"

definition ex_aead :: cipher_AEAD where
  "ex_aead = GCM (AesBlock ex_key)"

definition ex_Open :: "cipher_AEAD \<Rightarrow> string \<Rightarrow> string \<Rightarrow> string + string" where
  "ex_Open a nonce ct =
     (if length nonce \<le> length ct \<and> drop (length ct - length nonce) ct = nonce
      then Inr (take (length ct - length nonce) ct)
      else Inl ''cipher: message authentication failed'')"

text \<open>The packets of the server, before the server seals them.\<close>

definition ex_login :: string where
  \<open>ex_login = ''{"type":"login"}'' @ [CHR 0x0A]\<close>

definition ex_hello_cipher :: string where
  "ex_hello_cipher = ''c2VydmVyLW5jZS0xc2VydmVyaGVsbG86N3NlcnZlci1uY2UtMQ''"

definition ex_serverhello :: string where
  \<open>ex_serverhello =
     ''{"type":"serverhello","obj":{"cipher":"'' @ ex_hello_cipher @ ''"}}'' @ [CHR 0x0A]\<close>

definition ex_otherhello :: string where
  \<open>ex_otherhello =
     ''{"type":"hello","obj":{"cipher":"'' @ ex_hello_cipher @ ''"}}'' @ [CHR 0x0A]\<close>

definition ex_initialpc :: string where
  \<open>ex_initialpc = ''{"type":"initialpc","pc":5}''\<close>

definition ex_agreeconn :: string where
  \<open>ex_agreeconn = ''{"type":"agreeconn","pc":7}''\<close>

definition ex_rotate9 :: string where
  \<open>ex_rotate9 = ''{"type":"rotate","pc":9,"obj":{}}''\<close>

definition ex_rotate8 :: string where
  \<open>ex_rotate8 = ''{"type":"rotate","pc":8,"obj":{}}''\<close>

definition ex_defend :: string where
  \<open>ex_defend = ''{"type":"defend","pc":9,"error":"not allowed"}''\<close>

definition ex_health :: string where
  \<open>ex_health = ''{"type":"health","pc":9,"obj":{"value":80},"error":"not allowed"}''\<close>

definition ex_json_typePacket :: "string \<Rightarrow> string + typePacket" where
  "ex_json_typePacket b =
     (if b = ex_serverhello then Inr \<lparr>tp_Type = ''serverhello''\<rparr>
      else if b = ex_otherhello then Inr \<lparr>tp_Type = ''hello''\<rparr>
      else if b = ex_initialpc then Inr \<lparr>tp_Type = ''initialpc''\<rparr>
      else Inl ''unexpected end of JSON input'')"

definition ex_json_response :: "string \<Rightarrow> string + response" where
  "ex_json_response b =
     (if b = ex_login
      then Inr \<lparr>resp_Type = ''login'', resp_Pc = None, resp_Error = None\<rparr>
      else if b = ex_otherhello
      then Inr \<lparr>resp_Type = ''hello'', resp_Pc = None, resp_Error = None\<rparr>
      else if b = ex_initialpc
      then Inr \<lparr>resp_Type = ''initialpc'', resp_Pc = Some 5, resp_Error = None\<rparr>
      else if b = ex_agreeconn
      then Inr \<lparr>resp_Type = ''agreeconn'', resp_Pc = Some 7, resp_Error = None\<rparr>
      else if b = ex_rotate9
      then Inr \<lparr>resp_Type = ''rotate'', resp_Pc = Some 9, resp_Error = None\<rparr>
      else if b = ex_rotate8
      then Inr \<lparr>resp_Type = ''rotate'', resp_Pc = Some 8, resp_Error = None\<rparr>
      else if b = ex_defend
      then Inr \<lparr>resp_Type = ''defend'', resp_Pc = Some 9, resp_Error = Some ''not allowed''\<rparr>
      else if b = ex_health
      then Inr \<lparr>resp_Type = ''health'', resp_Pc = Some 9, resp_Error = Some ''not allowed''\<rparr>
      else Inl ''unexpected end of JSON input'')"

definition ex_json_serverhelloPacket :: "string \<Rightarrow> string + serverhelloPacket" where
  "ex_json_serverhelloPacket b =
     (if b = ex_serverhello
      then Inr \<lparr>sh_Type = ''serverhello'', sh_Obj = \<lparr>Cipher = Some ex_hello_cipher\<rparr>\<rparr>
      else if b = ex_otherhello
      then Inr \<lparr>sh_Type = ''hello'', sh_Obj = \<lparr>Cipher = Some ex_hello_cipher\<rparr>\<rparr>
      else Inl ''unexpected end of JSON input'')"

definition ex_env :: env where
  "ex_env =
     \<lparr>http_Get = (\<lambda>url. if url = ''https://api.vikebot.com/v1/roundentry/connectinfo/token''
                         then Inr ex_body else Inl ''no such host''),
      json_roundInformation = (\<lambda>b. if b = ex_body
                         then Inr \<lparr>Ticket = ''T'', AesKey = ex_key64, IPV4 = ''127.0.0.1'',
                                   IPV6 = [], Port = 9999, ri_Error = None\<rparr>
                         else Inl ''unexpected end of JSON input''),
      Std_DecodeString = (\<lambda>s. if s = ex_key64 then Inr ex_key
                         else Inl ''illegal base64 data at input byte 0''),
      aes_NewCipher = (\<lambda>k. if length k = 16 \<or> length k = 24 \<or> length k = 32
                         then Inr (AesBlock k) else Inl ''crypto/aes: invalid key size''),
      cipher_NewGCM = (\<lambda>b. Inr (GCM b)),
      net_Dial = (\<lambda>a. if a = ''127.0.0.1:9999'' then None else Some ''connection refused''),
      NonceSize = (\<lambda>a. 12),
      Seal = (\<lambda>a nonce plain. plain @ nonce),
      Open = ex_Open,
      json_typePacket = ex_json_typePacket,
      json_response = ex_json_response,
      json_serverhelloPacket = ex_json_serverhelloPacket,
      json_errorResp = (\<lambda>b. if b = ex_rotate9 \<or> b = ex_rotate8 then Inr \<lparr>er_Error = None\<rparr>
                         else Inl ''unexpected end of JSON input''),
      json_attackResp = (\<lambda>b. Inl ''unexpected end of JSON input''),
      json_radarResp = (\<lambda>b. Inl ''unexpected end of JSON input''),
      json_watchResp = (\<lambda>b. Inl ''unexpected end of JSON input''),
      json_scoutResp = (\<lambda>b. Inl ''unexpected end of JSON input''),
      json_healthResp = (\<lambda>b. if b = ex_health then Inr \<lparr>hr_Obj = Some (Some 80)\<rparr>
                         else Inl ''unexpected end of JSON input'')\<rparr>"

text \<open>
  What the server puts on the wire once the connection is encrypted: the packet between
  two copies of the server's nonce, in base64, and the line feed.
\<close>

definition ex_frame :: "string \<Rightarrow> string \<Rightarrow> string" where
  "ex_frame nonce packet = Encode (nonce @ Seal ex_env ex_aead nonce packet) @ [CHR 0x0A]"

definition ex_handshake :: string where
  "ex_handshake =
     ex_login @ ex_serverhello @ ex_frame ''server-nce-2'' ex_initialpc
     @ ex_frame ''server-nce-3'' ex_agreeconn"

definition ex_handshake_otherhello :: string where
  "ex_handshake_otherhello =
     ex_login @ ex_otherhello @ ex_frame ''server-nce-2'' ex_initialpc
     @ ex_frame ''server-nce-3'' ex_agreeconn"

text \<open>
  The random source gives the eight bytes of the challenge (the number 7) and then the
  nonces of the client.
\<close>

definition ex_rand :: string where
  "ex_rand =
     [CHR 0x00, CHR 0x00, CHR 0x00, CHR 0x00, CHR 0x00, CHR 0x00, CHR 0x00, CHR 0x07]
     @ ''abcdefghijkl'' @ ''mnopqrstuvwx''"

definition ex_world :: "string \<Rightarrow> string \<Rightarrow> world" where
  "ex_world input random =
     \<lparr>net_in = input, net_out = [], net_write_errs = [], net_close_err = None,
      net_closed = False, rand = random\<rparr>"

text \<open>
  The game that \<open>Join\<close> returns in the example, the same game before the login, and
  what the client has written when \<open>Join\<close> returns.
\<close>

definition ex_game :: Game where
  "ex_game =
     \<lparr>conn = Some TheConn, buf = Some TheReader, gcm = Some ex_aead,
      pc = 7, Encrypted = True, Player = Some ThePlayer\<rparr>"

definition ex_plain_game :: Game where
  "ex_plain_game =
     \<lparr>conn = Some TheConn, buf = Some TheReader, gcm = Some ex_aead,
      pc = 0, Encrypted = False, Player = None\<rparr>"

definition ex_sent :: "string list" where
  \<open>ex_sent =
     [''{"type":"login","obj":{"roundticket":"T"}}'' @ [CHR 0x0A],
      ''{"type":"clienthello","obj":{"cipher":"''
        @ Encode (''abcdefghijkl'' @ ''clienthello:7'' @ ''abcdefghijkl'') @ ''"}}'' @ [CHR 0x0A],
      Encode (''mnopqrstuvwx'' @ ''{"type":"agreeconn","pc":6,"obj":{}}'' @ ''mnopqrstuvwx'')
        @ [CHR 0x0A]]\<close>

section \<open>Properties of the base64 encoding\<close>

text \<open>\<open>Decode\<close> takes back what \<open>Encode\<close> gives, and the two length functions agree with them.\<close>

lemma distinct_encodeStd: "distinct encodeStd"
  by (simp add: encodeStd_def)

lemma length_encodeStd: "length encodeStd = 64"
  by (simp add: encodeStd_def)

lemma index_of_nth: "distinct xs \<Longrightarrow> n < length xs \<Longrightarrow> index_of (xs ! n) xs = n"
proof (induction xs arbitrary: n)
  case Nil
  then show ?case by simp
next
  case (Cons x xs)
  then show ?case by (cases n) auto
qed

lemma decodeMap_enc64: "n < 64 \<Longrightarrow> decodeMap (enc64 n) = Some n"
  by (simp add: decodeMap_def enc64_def index_of_nth distinct_encodeStd length_encodeStd)

lemma v4_atoms:
  fixes a b c d e f :: nat
  shows "a * 262144 + (b * 16 + c) * 4096 + (d * 4 + e) * 64 + f
         = ((a * 4 + b) * 256 + (c * 16 + d)) * 256 + (e * 64 + f)"
  by (simp add: algebra_simps)

lemma v4:
  fixes x y z :: nat
  shows "x div 4 * 262144 + (x mod 4 * 16 + y div 16) * 4096 + (y mod 16 * 4 + z div 64) * 64 + z mod 64
         = (x * 256 + y) * 256 + z"
  unfolding v4_atoms by simp

lemma bytes_of_v:
  fixes x y z :: nat
  assumes "x < 256" "y < 256" "z < 256"
  shows "((x * 256 + y) * 256 + z) div 65536 mod 256 = x"
    and "((x * 256 + y) * 256 + z) div 256 mod 256 = y"
    and "((x * 256 + y) * 256 + z) mod 256 = z"
proof -
  let ?w = "(x * 256 + y) * 256 + z"
  have d1: "?w div 256 = x * 256 + y" using assms by simp
  have "?w div 65536 = ?w div 256 div 256" by (simp add: div_mult2_eq)
  also have "\<dots> = x" unfolding d1 using assms by simp
  finally show "?w div 65536 mod 256 = x" using assms by simp
  show "?w div 256 mod 256 = y" unfolding d1 using assms by simp
  show "?w mod 256 = z" using assms by (simp only: mod_mult_self3 mod_less)
qed

lemma quantum_unfold:
  "quantum [a, b, c, d] =
     (let val = a * 262144 + b * 4096 + c * 64 + d
      in [byte (val div 65536 mod 256), byte (val div 256 mod 256), byte (val mod 256)])"
  "quantum [a, b, c] =
     (let val = a * 262144 + b * 4096 + c * 64 + 0
      in [byte (val div 65536 mod 256), byte (val div 256 mod 256)])"
  "quantum [a, b] =
     (let val = a * 262144 + b * 4096 + 0 * 64 + 0
      in [byte (val div 65536 mod 256)])"
  by (simp_all add: quantum_def)

lemma quantum4:
  assumes "x < 256" "y < 256" "z < 256"
  shows "quantum [x div 4, x mod 4 * 16 + y div 16, y mod 16 * 4 + z div 64, z mod 64]
         = [byte x, byte y, byte z]"
  unfolding quantum_unfold v4 Let_def using assms by (simp only: bytes_of_v)

lemma quantum3:
  assumes "x < 256" "y < 256"
  shows "quantum [x div 4, x mod 4 * 16 + y div 16, y mod 16 * 4] = [byte x, byte y]"
proof -
  have "quantum [x div 4, x mod 4 * 16 + y div 16, y mod 16 * 4]
      = (let val = x div 4 * 262144 + (x mod 4 * 16 + y div 16) * 4096 + (y mod 16 * 4 + 0 div 64) * 64 + 0 mod 64
         in [byte (val div 65536 mod 256), byte (val div 256 mod 256)])"
    unfolding quantum_unfold by simp
  also have "\<dots> = [byte x, byte y]"
    unfolding v4 Let_def using assms bytes_of_v [of x y 0] by simp
  finally show ?thesis .
qed

lemma quantum2:
  assumes "x < 256"
  shows "quantum [x div 4, x mod 4 * 16] = [byte x]"
proof -
  have "quantum [x div 4, x mod 4 * 16]
      = (let val = x div 4 * 262144 + (x mod 4 * 16 + 0 div 16) * 4096 + (0 mod 16 * 4 + 0 div 64) * 64 + 0 mod 64
         in [byte (val div 65536 mod 256)])"
    unfolding quantum_unfold by simp
  also have "\<dots> = [byte x]"
    unfolding v4 Let_def using assms bytes_of_v [of x 0 0] by simp
  finally show ?thesis .
qed

lemma of_char_lt: "of_char (c::char) < (256::nat)"
  by (metis of_char_mod_256 mod_less_divisor zero_less_numeral)

lemma byte_of_char: "byte (of_char c) = c"
  by (simp add: byte_def)

lemma sextets:
  fixes x y z :: nat
  assumes "x < 256" "y < 256" "z < 256"
  shows "x div 4 < 64" "x mod 4 * 16 + y div 16 < 64" "y mod 16 * 4 + z div 64 < 64"
    "z mod 64 < 64" "x mod 4 * 16 < 64" "y mod 16 * 4 < 64"
proof -
  show "x div 4 < 64" using assms by (intro less_mult_imp_div_less) simp
  have x: "x mod 4 < 4" and y: "y mod 16 < 16" by simp_all
  have y': "y div 16 < 16" using assms by (intro less_mult_imp_div_less) simp
  have z': "z div 64 < 4" using assms by (intro less_mult_imp_div_less) simp
  show "x mod 4 * 16 + y div 16 < 64" using x y' by linarith
  show "y mod 16 * 4 + z div 64 < 64" using y z' by linarith
  show "z mod 64 < 64" by simp
  show "x mod 4 * 16 < 64" using x by linarith
  show "y mod 16 * 4 < 64" using y by linarith
qed

lemma decode_Encode: "decode_from (Encode x) si [] out = Inr (out @ x)"
proof (induction x arbitrary: si out rule: Encode.induct)
  case 1
  then show ?case by simp
next
  case (2 a)
  have a: "of_char a < (256::nat)" by (rule of_char_lt)
  show ?case
    using quantum2 [OF a] sextets [OF a a a]
    by (simp add: decodeMap_enc64 byte_of_char Let_def)
next
  case (3 a b)
  have a: "of_char a < (256::nat)" and b: "of_char b < (256::nat)" by (rule of_char_lt)+
  show ?case
    using quantum3 [OF a b] sextets [OF a b b] sextets [OF b b b]
    by (simp add: decodeMap_enc64 byte_of_char Let_def)
next
  case (4 a b c rest)
  have a: "of_char a < (256::nat)" and b: "of_char b < (256::nat)" and c: "of_char c < (256::nat)"
    by (rule of_char_lt)+
  show ?case
    using quantum4 [OF a b c] sextets [OF a b c] 4
    by (simp add: decodeMap_enc64 byte_of_char Let_def)
qed

lemma Decode_Encode: "Decode (Encode x) = Inr x"
  by (simp add: Decode_def decode_Encode)

lemma EncodedLen_simps:
  "EncodedLen 0 = 0" "EncodedLen (Suc 0) = 2" "EncodedLen (Suc (Suc 0)) = 3"
  "EncodedLen (Suc (Suc (Suc n))) = Suc (Suc (Suc (Suc (EncodedLen n))))"
proof -
  have "Suc (Suc (Suc n)) = n + 3" by simp
  then show "EncodedLen (Suc (Suc (Suc n))) = Suc (Suc (Suc (Suc (EncodedLen n))))"
    unfolding EncodedLen_def by (simp only: div_add_self2 mod_add_self2) simp
qed (simp_all add: EncodedLen_def)

lemma length_Encode: "length (Encode x) = EncodedLen (length x)"
  by (induction x rule: Encode.induct) (simp_all add: EncodedLen_simps Let_def)

lemma DecodedLen_simps:
  "DecodedLen 0 = 0" "DecodedLen (Suc (Suc 0)) = Suc 0" "DecodedLen (Suc (Suc (Suc 0))) = Suc (Suc 0)"
  "DecodedLen (Suc (Suc (Suc (Suc n)))) = Suc (Suc (Suc (DecodedLen n)))"
proof -
  have "Suc (Suc (Suc (Suc n))) * 6 = n * 6 + 3 * 8" by simp
  then show "DecodedLen (Suc (Suc (Suc (Suc n)))) = Suc (Suc (Suc (DecodedLen n)))"
    unfolding DecodedLen_def by (simp only: div_mult_self1)
qed (simp_all add: DecodedLen_def)

lemma DecodedLen_length_Encode: "DecodedLen (length (Encode x)) = length x"
  by (induction x rule: Encode.induct) (simp_all add: DecodedLen_simps Let_def)

lemma write_into_Encode:
  "write_into (replicate (EncodedLen (length c)) z) (Encode c) = Encode c"
  by (simp add: write_into_def length_Encode)

lemma write_into_decoded:
  "write_into (replicate (DecodedLen (length (Encode c))) z) c = c"
  by (simp add: write_into_def DecodedLen_length_Encode)

text \<open>What \<open>Decode\<close> writes fits the buffer that \<open>DecodedLen\<close> sizes.\<close>

lemma length_quantum: "4 * length (quantum dbuf) \<le> 3 * length dbuf"
  by (simp add: quantum_def Let_def min_def) arith

lemma decode_from_length:
  "decode_from src si dbuf out = Inr r \<Longrightarrow>
   4 * length r \<le> 4 * length out + 3 * (length dbuf + length src)"
proof (induction src arbitrary: si dbuf out)
  case Nil
  then show ?case
    using length_quantum [of dbuf] by (auto split: if_splits)
next
  case (Cons c cs)
  show ?case
  proof (cases "decodeMap c")
    case None
    with Cons.prems have "decode_from cs (Suc si) dbuf out = Inr r"
      by (simp split: if_splits)
    from Cons.IH [OF this] show ?thesis by simp
  next
    case (Some v)
    show ?thesis
    proof (cases "length dbuf = 3")
      case True
      with Some Cons.prems
      have "decode_from cs (Suc si) [] (out @ quantum (dbuf @ [v])) = Inr r" by simp
      from Cons.IH [OF this] length_quantum [of "dbuf @ [v]"] True show ?thesis by simp
    next
      case False
      with Some Cons.prems have "decode_from cs (Suc si) (dbuf @ [v]) out = Inr r" by simp
      from Cons.IH [OF this] show ?thesis by simp
    qed
  qed
qed

lemma Decode_length: "Decode src = Inr bs \<Longrightarrow> length bs \<le> DecodedLen (length src)"
proof -
  assume "Decode src = Inr bs"
  then have "4 * length bs \<le> 3 * length src"
    using decode_from_length [of src 0 "[]" "[]" bs] by (simp add: Decode_def)
  then show ?thesis unfolding DecodedLen_def by linarith
qed

lemma length_write_into_decoded:
  "Decode src = Inr bs \<Longrightarrow>
   length (write_into (replicate (DecodedLen (length src)) z) bs) = DecodedLen (length src)"
  by (drule Decode_length) (simp add: write_into_def)

section \<open>Frames\<close>

lemma ReadBytes_line:
  assumes "net_in w = l @ CHR 0x0A # rest" and "CHR 0x0A \<notin> set l"
  shows "ReadBytes w = (Inr (l @ [CHR 0x0A]), w\<lparr>net_in := rest\<rparr>)"
proof -
  have t: "takeWhile (\<lambda>c. c \<noteq> CHR 0x0A) (l @ CHR 0x0A # rest) = l"
    using assms(2) by (induction l) auto
  have d: "dropWhile (\<lambda>c. c \<noteq> CHR 0x0A) (l @ CHR 0x0A # rest) = CHR 0x0A # rest"
    using assms(2) by (induction l) auto
  show ?thesis
    unfolding ReadBytes_def assms(1) t d by simp
qed

lemma ReadBytes_no_line:
  "CHR 0x0A \<notin> set (net_in w) \<Longrightarrow> ReadBytes w = (Inl ''EOF'', w\<lparr>net_in := []\<rparr>)"
  by (simp add: ReadBytes_def)

text \<open>
  The errors of \<open>read\<close>: no delimiter before the stream ends, a frame that is not
  base64, and a frame that \<open>Open\<close> rejects.
\<close>

lemma read_no_delimiter:
  assumes "buf g = Some r" and "CHR 0x0A \<notin> set (net_in w)"
  shows "read E x g w = (Err ''EOF'', w\<lparr>net_in := []\<rparr>)"
  unfolding read_def ReadBytes_no_line [OF assms(2)] using assms(1) by simp

lemma read_not_base64:
  assumes "buf g = Some r" and "Encrypted g"
    and "net_in w = l @ CHR 0x0A # rest" and "CHR 0x0A \<notin> set l"
    and "Decode l = Inl e"
  shows "read E x g w = (Err (''vikebot: unsecure connection - '' @ e), w\<lparr>net_in := rest\<rparr>)"
  unfolding read_def ReadBytes_line [OF assms(3,4)]
  using assms(1,2,5) by (simp add: decrypt64_def)

lemma read_not_opened:
  assumes "buf g = Some r" and "Encrypted g"
    and "net_in w = l @ CHR 0x0A # rest" and "CHR 0x0A \<notin> set l"
    and "gcm g = Some a" and "Decode l = Inr bs"
    and "NonceSize E a \<le> DecodedLen (length l)"
    and "c = write_into (replicate (DecodedLen (length l)) (CHR 0x00)) bs"
    and "Open E a (take (NonceSize E a) c) (drop (NonceSize E a) c) = Inl e"
  shows "read E x g w = (Err (''vikebot: unsecure connection - '' @ e), w\<lparr>net_in := rest\<rparr>)"
proof -
  have "length c = DecodedLen (length l)"
    unfolding assms(8) by (rule length_write_into_decoded [OF assms(6)])
  then have "decrypt64 E g l = Err e"
    unfolding decrypt64_def assms(6) using assms(5,7,9) assms(8) [symmetric]
    by (simp add: decrypt_def)
  then show ?thesis
    unfolding read_def ReadBytes_line [OF assms(3,4)]
    using assms(1,2) by simp
qed

section \<open>Sealing and opening\<close>

lemma encrypt_Ok:
  assumes "gcm g = Some a" and "NonceSize E a \<le> length (rand w)"
  shows "encrypt E g p w =
         (Ok (take (NonceSize E a) (rand w) @ Seal E a (take (NonceSize E a) (rand w)) p),
          w\<lparr>rand := drop (NonceSize E a) (rand w)\<rparr>)"
  using assms by (simp add: encrypt_def rand_ReadFull_def)

lemma decrypt_sealed:
  assumes "gcm g = Some a" and "length nonce = NonceSize E a"
    and "Open E a nonce (Seal E a nonce p) = Inr p"
  shows "decrypt E g (nonce @ Seal E a nonce p) = Ok p"
  using assms by (simp add: decrypt_def)

lemma decrypt_short:
  assumes "gcm g = Some a" and "length c < NonceSize E a"
  shows "decrypt E g c = Panic"
  using assms by (simp add: decrypt_def)

text \<open>
  C8.  Round-trip law: for every plain text and every nonce that \<open>encrypt\<close> draws from
  the random source, \<open>decrypt\<close> gives the plain text back from what \<open>encrypt\<close>
  returned, and \<open>decrypt64\<close> gives it back from what \<open>encrypt64\<close> returned.  The
  AEAD is a parameter; what is assumed of it is that \<open>Open\<close> undoes \<open>Seal\<close> under a
  nonce of the size of the cipher.
\<close>

theorem C8_round_trip:
  assumes "\<forall>n p. length n = NonceSize E a \<longrightarrow> Open E a n (Seal E a n p) = Inr p"
    and "gcm g = Some a"
    and "NonceSize E a \<le> length (rand w)"
    and "nonce = take (NonceSize E a) (rand w)"
  shows "encrypt E g p w
           = (Ok (nonce @ Seal E a nonce p), w\<lparr>rand := drop (NonceSize E a) (rand w)\<rparr>)
       \<and> decrypt E g (nonce @ Seal E a nonce p) = Ok p
       \<and> encrypt64 E g p w
           = (Ok (Encode (nonce @ Seal E a nonce p)), w\<lparr>rand := drop (NonceSize E a) (rand w)\<rparr>)
       \<and> decrypt64 E g (Encode (nonce @ Seal E a nonce p)) = Ok p"
proof -
  have n: "length nonce = NonceSize E a"
    using assms(3,4) by simp
  have e: "encrypt E g p w
           = (Ok (nonce @ Seal E a nonce p), w\<lparr>rand := drop (NonceSize E a) (rand w)\<rparr>)"
    using encrypt_Ok [OF assms(2,3)] assms(4) by simp
  have d: "decrypt E g (nonce @ Seal E a nonce p) = Ok p"
    using assms(1) n by (intro decrypt_sealed [OF assms(2)]) auto
  have e64: "encrypt64 E g p w
           = (Ok (Encode (nonce @ Seal E a nonce p)), w\<lparr>rand := drop (NonceSize E a) (rand w)\<rparr>)"
    unfolding encrypt64_def e by (simp add: write_into_Encode del: length_append)
  have d64: "decrypt64 E g (Encode (nonce @ Seal E a nonce p)) = Ok p"
    unfolding decrypt64_def Decode_Encode by (simp add: write_into_decoded d)
  from e d e64 d64 show ?thesis by simp
qed

text \<open>The definitions that the examples are evaluated with.\<close>

lemmas ex_defs = ex_env_def ex_key64_def ex_body_def ex_key_def ex_aead_def ex_Open_def
  ex_login_def ex_hello_cipher_def ex_serverhello_def ex_otherhello_def ex_initialpc_def
  ex_agreeconn_def ex_rotate9_def ex_rotate8_def ex_defend_def ex_health_def
  ex_json_typePacket_def ex_json_response_def ex_json_serverhelloPacket_def
  ex_world_def ex_game_def ex_plain_game_def

lemmas b64_eval = Decode_def decodeMap_def encodeStd_def enc64_def quantum_def byte_def
  char_of_def bit_Suc_0_iff write_into_def EncodedLen_def DecodedLen_def

theorem C8_round_trip_witness:
  "encrypt ex_env ex_game ''ping'' (ex_world [] ''abcdefghijklm'')
     = (Ok (''abcdefghijkl'' @ ''ping'' @ ''abcdefghijkl''), ex_world [] ''m'')
   \<and> decrypt ex_env ex_game (''abcdefghijkl'' @ ''ping'' @ ''abcdefghijkl'') = Ok ''ping''
   \<and> encrypt64 ex_env ex_game ''ping'' (ex_world [] ''abcdefghijklm'')
     = (Ok ''YWJjZGVmZ2hpamtscGluZ2FiY2RlZmdoaWprbA'', ex_world [] ''m'')
   \<and> decrypt64 ex_env ex_game ''YWJjZGVmZ2hpamtscGluZ2FiY2RlZmdoaWprbA'' = Ok ''ping''"
proof -
  have 1: "\<forall>n p. length n = NonceSize ex_env ex_aead
             \<longrightarrow> Open ex_env ex_aead n (Seal ex_env ex_aead n p) = Inr p"
    by (simp add: ex_env_def ex_Open_def)
  have 2: "gcm ex_game = Some ex_aead"
    by (simp add: ex_game_def)
  have 3: "NonceSize ex_env ex_aead \<le> length (rand (ex_world [] ''abcdefghijklm''))"
    by (simp add: ex_env_def ex_world_def)
  have 4: "''abcdefghijkl'' = take (NonceSize ex_env ex_aead) (rand (ex_world [] ''abcdefghijklm''))"
    by (simp add: ex_env_def ex_world_def)
  have 5: "Encode (''abcdefghijkl'' @ ''ping'' @ ''abcdefghijkl'') = ''YWJjZGVmZ2hpamtscGluZ2FiY2RlZmdoaWprbA''"
    by (simp add: enc64_def encodeStd_def)
  show ?thesis
    using C8_round_trip [OF 1 2 3 4, of "''ping''"] 5
    by (simp add: ex_env_def ex_world_def)
qed

text \<open>
  C5.  A frame that decodes to fewer bytes than the nonce: \<open>decrypt64\<close> and with it
  \<open>read\<close> panic in the slice expressions of \<open>decrypt\<close>; no error is returned.
\<close>

theorem C5_short_frame_panics:
  assumes "gcm g = Some a"
    and "Decode cipher64 = Inr bs"
    and "DecodedLen (length cipher64) < NonceSize E a"
    and "buf g = Some r"
    and "Encrypted g"
    and "net_in w = cipher64 @ CHR 0x0A # rest"
    and "CHR 0x0A \<notin> set cipher64"
  shows "decrypt64 E g cipher64 = Panic
       \<and> read E extractPt g w = (Panic, w\<lparr>net_in := rest\<rparr>)"
proof -
  have d: "decrypt64 E g cipher64 = Panic"
    unfolding decrypt64_def assms(2)
    using length_write_into_decoded [OF assms(2)] assms(3)
    by (simp add: decrypt_short [OF assms(1)])
  have "read E extractPt g w = (Panic, w\<lparr>net_in := rest\<rparr>)"
    unfolding read_def ReadBytes_line [OF assms(6,7)]
    using assms(4,5) d by simp
  with d show ?thesis by simp
qed

theorem C5_short_frame_panics_witness:
  "decrypt64 ex_env ex_game ''QUJD'' = Panic
   \<and> read ex_env False ex_game (ex_world (''QUJD'' @ [CHR 0x0A]) []) = (Panic, ex_world [] [])"
proof -
  have 1: "gcm ex_game = Some ex_aead" by (simp add: ex_game_def)
  have 2: "Decode ''QUJD'' = Inr ''ABC''" by (simp add: b64_eval)
  have 3: "DecodedLen (length ''QUJD'') < NonceSize ex_env ex_aead"
    by (simp add: DecodedLen_def ex_env_def)
  have 4: "buf ex_game = Some TheReader" and 5: "Encrypted ex_game" by (simp_all add: ex_game_def)
  have 6: "net_in (ex_world (''QUJD'' @ [CHR 0x0A]) []) = ''QUJD'' @ CHR 0x0A # []"
    by (simp add: ex_world_def)
  have 7: "CHR 0x0A \<notin> set ''QUJD''" by simp
  show ?thesis
    using C5_short_frame_panics [OF 1 2 3 4 5 6 7, of False] by (simp add: ex_world_def)
qed

section \<open>Closing the game\<close>

lemma write_g_closed:
  "conn g = None \<Longrightarrow> \<not> Encrypted g \<Longrightarrow> write_g E b g w = (Panic, w)"
  by (simp add: write_g_def)

lemma tar_closed:
  "conn g = None \<Longrightarrow> \<not> Encrypted g \<Longrightarrow> trivialActionResp E pt b g w = (Panic, g, w)"
  by (simp add: trivialActionResp_def write_g_closed)

lemma command_closed:
  assumes "conn g = None" and "\<not> Encrypted g"
  shows "command E c g w = (Panic, g\<lparr>pc := pc g + 1\<rparr>, w)"
  using assms
  by (cases c)
     (simp_all add: lift_res_def Rotate_def Move_def Attack_def Radar_def Watch_def Scout_def
        Defend_def Undefend_def GetHealth_def trivialAction_def tar_closed Let_def)

text \<open>
  C4 (amended).  \<open>Close\<close> on a game whose connection is there closes the connection,
  returns what that returns, and sets \<open>conn\<close>, \<open>buf\<close>, \<open>gcm\<close> and \<open>Player\<close> to
  nil and \<open>Encrypted\<close> to false; the packet counter stays as it was.  On the closed
  game a second \<open>Close\<close> panics, and so does every command.
\<close>

theorem C4_close:
  assumes "conn g = Some k"
    and "g' = g\<lparr>conn := None, buf := None, gcm := None, Encrypted := False, Player := None\<rparr>"
  shows "Close g w
           = ((case net_close_err w of None \<Rightarrow> Ok () | Some e \<Rightarrow> Err e),
              g', w\<lparr>net_closed := True\<rparr>)
       \<and> pc g' = pc g
       \<and> Close g' w' = (Panic, g', w')
       \<and> command E c g' w' = (Panic, g'\<lparr>pc := pc g' + 1\<rparr>, w')"
proof -
  have 1: "Close g w
           = ((case net_close_err w of None \<Rightarrow> Ok () | Some e \<Rightarrow> Err e),
              g', w\<lparr>net_closed := True\<rparr>)"
    using assms by (simp add: Close_def)
  have 2: "pc g' = pc g" using assms(2) by simp
  have 3: "Close g' w' = (Panic, g', w')"
    using assms(2) by (simp add: Close_def)
  have 4: "command E c g' w' = (Panic, g'\<lparr>pc := pc g' + 1\<rparr>, w')"
    using assms(2) by (intro command_closed) simp_all
  from 1 2 3 4 show ?thesis by simp
qed



theorem C4_close_witness:
  "Close ex_game (ex_world [] [])
     = (Ok (), ex_game\<lparr>conn := None, buf := None, gcm := None, Encrypted := False, Player := None\<rparr>,
        (ex_world [] [])\<lparr>net_closed := True\<rparr>)
   \<and> pc (ex_game\<lparr>conn := None, buf := None, gcm := None, Encrypted := False, Player := None\<rparr>) = 7
   \<and> Close (ex_game\<lparr>conn := None, buf := None, gcm := None, Encrypted := False, Player := None\<rparr>)
        ((ex_world [] [])\<lparr>net_closed := True\<rparr>)
     = (Panic, ex_game\<lparr>conn := None, buf := None, gcm := None, Encrypted := False, Player := None\<rparr>,
        (ex_world [] [])\<lparr>net_closed := True\<rparr>)
   \<and> command ex_env CDefend
        (ex_game\<lparr>conn := None, buf := None, gcm := None, Encrypted := False, Player := None\<rparr>)
        ((ex_world [] [])\<lparr>net_closed := True\<rparr>)
     = (Panic, ex_game\<lparr>conn := None, buf := None, gcm := None, Encrypted := False, Player := None,
                       pc := 8\<rparr>,
        (ex_world [] [])\<lparr>net_closed := True\<rparr>)"
proof -
  have 1: "conn ex_game = Some TheConn" by (simp add: ex_game_def)
  show ?thesis
    using C4_close [OF 1 refl, of "ex_world [] []" "(ex_world [] [])\<lparr>net_closed := True\<rparr>"
        ex_env CDefend]
    by (simp add: ex_game_def ex_world_def)
qed

theorem C4_second_close_counterexample:
  "fst (Close ex_game (ex_world [] [])) = Ok ()
   \<and> fst (Close (fst (snd (Close ex_game (ex_world [] []))))
               (snd (snd (Close ex_game (ex_world [] []))))) = Panic
   \<and> fst (command ex_env CGetHealth (fst (snd (Close ex_game (ex_world [] []))))
               (snd (snd (Close ex_game (ex_world [] []))))) = Panic"
  by (simp add: Close_def ex_game_def ex_world_def lift_res_def GetHealth_def
      trivialActionResp_def write_g_def)

section \<open>Reading a frame\<close>

text \<open>
  C7 (amended).  \<open>read\<close> takes the bytes up to and including the next line feed.  In
  an encrypted game the line feed is cut off, the rest is decoded and opened, and the
  plain text is returned.  In a game that is not encrypted the bytes are returned as
  they were read, the line feed at their end included.
\<close>

theorem C7_read_frame:
  assumes "buf g = Some r"
    and "net_in w = l @ CHR 0x0A # rest"
    and "CHR 0x0A \<notin> set l"
  shows "read E False g w =
           ((if Encrypted g
             then (case decrypt64 E g l of
                     Ok plain \<Rightarrow> Ok ([], plain)
                   | Err e \<Rightarrow> Err (''vikebot: unsecure connection - '' @ e)
                   | Panic \<Rightarrow> Panic)
             else Ok ([], l @ [CHR 0x0A])),
            w\<lparr>net_in := rest\<rparr>)"
  unfolding read_def ReadBytes_line [OF assms(2,3)]
  using assms(1) by (simp split: res.splits)

theorem C7_read_frame_witness:
  \<open>read ex_env False ex_plain_game (ex_world (''{"type":"login"}'' @ CHR 0x0A # ''rest'') [])
     = (Ok ([], ''{"type":"login"}'' @ [CHR 0x0A]), ex_world ''rest'' [])
   \<and> read ex_env False ex_game
        (ex_world (''c2VydmVyLW5jZS0yeyJ0eXBlIjoiaW5pdGlhbHBjIiwicGMiOjV9c2VydmVyLW5jZS0y''
                   @ CHR 0x0A # ''rest'') [])
     = (Ok ([], ''{"type":"initialpc","pc":5}''), ex_world ''rest'' [])\<close>
proof -
  have 1: "buf ex_plain_game = Some TheReader" "buf ex_game = Some TheReader"
    by (simp_all add: ex_plain_game_def ex_game_def)
  have 2: \<open>net_in (ex_world (''{"type":"login"}'' @ CHR 0x0A # ''rest'') [])
           = ''{"type":"login"}'' @ CHR 0x0A # ''rest''\<close>
    by (simp add: ex_world_def)
  have 3: \<open>CHR 0x0A \<notin> set ''{"type":"login"}''\<close> by simp
  have 4: "net_in (ex_world (''c2VydmVyLW5jZS0yeyJ0eXBlIjoiaW5pdGlhbHBjIiwicGMiOjV9c2VydmVyLW5jZS0y''
                   @ CHR 0x0A # ''rest'') [])
           = ''c2VydmVyLW5jZS0yeyJ0eXBlIjoiaW5pdGlhbHBjIiwicGMiOjV9c2VydmVyLW5jZS0y'' @ CHR 0x0A # ''rest''"
    by (simp add: ex_world_def)
  have 5: "CHR 0x0A \<notin> set ''c2VydmVyLW5jZS0yeyJ0eXBlIjoiaW5pdGlhbHBjIiwicGMiOjV9c2VydmVyLW5jZS0y''"
    by simp
  have 6: \<open>decrypt64 ex_env ex_game ''c2VydmVyLW5jZS0yeyJ0eXBlIjoiaW5pdGlhbHBjIiwicGMiOjV9c2VydmVyLW5jZS0y''
           = Ok ''{"type":"initialpc","pc":5}''\<close>
    by (simp add: decrypt64_def decrypt_def b64_eval ex_env_def ex_game_def ex_Open_def)
  show ?thesis
    using C7_read_frame [OF 1(1) 2 3, of ex_env] C7_read_frame [OF 1(2) 4 5, of ex_env] 6
    by (simp add: ex_plain_game_def ex_game_def ex_world_def)
qed

theorem C7_delimiter_kept_counterexample:
  \<open>read ex_env False ex_plain_game (ex_world (''{"type":"login"}'' @ [CHR 0x0A]) [])
     = (Ok ([], ''{"type":"login"}'' @ [CHR 0x0A]), ex_world [] [])
   \<and> last (''{"type":"login"}'' @ [CHR 0x0A]) = CHR 0x0A\<close>
  by (simp add: read_def ReadBytes_def ex_plain_game_def ex_world_def)


section \<open>The correlator and the packet counter\<close>

lemma tar_game:
  "fst (snd (trivialActionResp E pt packet g w))
   = (if Encrypted g \<and> responded E pt packet g w then g\<lparr>pc := pc g + 1\<rparr> else g)"
  by (simp add: trivialActionResp_def responded_def Let_def
      split: prod.splits res.splits sum.splits option.splits)

lemma tar_Ok:
  "trivialActionResp E pt packet g w = (Ok b, g', w') \<Longrightarrow> responded E pt packet g w"
  by (auto simp add: trivialActionResp_def responded_def Let_def
      split: prod.splits res.splits sum.splits option.splits if_splits)

lemma ta_Ok:
  "trivialAction E pt packet g w = (Ok u, g', w') \<Longrightarrow> responded E pt packet g w"
  by (auto simp add: trivialAction_def split: prod.splits res.splits dest: tar_Ok)

lemma ta_game:
  "fst (snd (trivialAction E pt packet g w)) = fst (snd (trivialActionResp E pt packet g w))"
  by (simp add: trivialAction_def split: prod.splits res.splits)

lemmas command_defs = lift_res_def Rotate_def Move_def Attack_def Radar_def Watch_def Scout_def
  Defend_def Undefend_def GetHealth_def

lemma command_tar_game:
  "fst (snd (command E c g w))
   = fst (snd (trivialActionResp E (expected_type c) (packet_of c (pc g + 1))
                (g\<lparr>pc := pc g + 1\<rparr>) w))"
  by (cases c)
     (simp_all add: command_defs trivialAction_def Let_def
        split: prod.splits res.splits sum.splits option.splits)

lemma command_game:
  "fst (snd (command E c g w))
   = (if Encrypted g \<and> answered E c g w then g\<lparr>pc := pc g + 2\<rparr> else g\<lparr>pc := pc g + 1\<rparr>)"
  by (simp add: command_tar_game tar_game answered_def add.assoc)

lemma command_Ok_answered:
  "command E c g w = (Ok r, g', w') \<Longrightarrow> answered E c g w"
  unfolding answered_def
  by (cases c)
     (auto simp add: command_defs Let_def
        split: prod.splits res.splits sum.splits option.splits dest: tar_Ok ta_Ok)

lemma command_Ok_game:
  assumes "command E c g w = (Ok r, g', w')" and "Encrypted g"
  shows "g' = g\<lparr>pc := pc g + 2\<rparr>"
proof -
  have "g' = fst (snd (command E c g w))" using assms(1) by simp
  then show ?thesis
    unfolding command_game using command_Ok_answered [OF assms(1)] assms(2) by simp
qed

lemma commands_Ok_game:
  "commands E cs g w = (Ok rs, g', w') \<Longrightarrow> Encrypted g \<Longrightarrow>
   g' = g\<lparr>pc := pc g + 2 * of_nat (length cs)\<rparr>"
proof (induction cs arbitrary: g w rs)
  case Nil
  then show ?case by simp
next
  case (Cons c cs)
  from Cons.prems(1) obtain r g1 w1 rs' where
    c: "command E c g w = (Ok r, g1, w1)" and cs: "commands E cs g1 w1 = (Ok rs', g', w')"
    by (auto split: prod.splits res.splits)
  have g1: "g1 = g\<lparr>pc := pc g + 2\<rparr>"
    using command_Ok_game [OF c Cons.prems(2)] .
  then have "Encrypted g1" using Cons.prems(2) by simp
  from Cons.IH [OF cs this] g1 show ?case by (simp add: algebra_simps)
qed

text \<open>
  C10.  A command that returns an error leaves the packet counter at the value it was
  incremented to before the send, and one further when the game is encrypted and a
  response of the expected type was received; it never has the value from before the
  call again.
\<close>

theorem C10_no_rollback:
  assumes "command E c g w = (Err e, g', w')"
  shows "pc g' = (if Encrypted g \<and> answered E c g w then pc g + 2 else pc g + 1)
       \<and> pc g' \<noteq> pc g"
proof -
  have "g' = fst (snd (command E c g w))" using assms by simp
  then show ?thesis unfolding command_game by simp
qed


lemma tar_guard:
  assumes "Encrypted g"
    and "write_g E packet g w = (Ok u, w1)"
    and "read E False g w1 = (Ok (t, b), w2)"
    and "json_response E b = Inr resp"
    and "resp_Type resp = pt"
  shows "trivialActionResp E pt packet g w =
           (case resp_Pc resp of
              None \<Rightarrow> Err ''vikebot: invalid server response. missing pc''
            | Some v \<Rightarrow>
                if v \<noteq> pc g + 1 then Err ''vikebot: invalid server response. pc mismatch''
                else Ok b,
            g\<lparr>pc := pc g + 1\<rparr>, w2)"
  using assms by (simp add: trivialActionResp_def Let_def split: option.splits)

lemma command_guard:
  assumes "Encrypted g"
    and "write_g E (packet_of c (pc g + 1)) (g\<lparr>pc := pc g + 1\<rparr>) w = (Ok u, w1)"
    and "read E False (g\<lparr>pc := pc g + 1\<rparr>) w1 = (Ok (t, b), w2)"
    and "json_response E b = Inr resp"
    and "resp_Type resp = expected_type c"
    and "resp_Pc resp \<noteq> Some (pc g + 2)"
  shows "command E c g w =
           (Err (wrapped c
                  (case resp_Pc resp of
                     None \<Rightarrow> ''vikebot: invalid server response. missing pc''
                   | Some v \<Rightarrow> ''vikebot: invalid server response. pc mismatch'')),
            g\<lparr>pc := pc g + 2\<rparr>, w2)"
proof -
  have enc: "Encrypted (g\<lparr>pc := pc g + 1\<rparr>)" using assms(1) by simp
  note tg = tar_guard [OF enc assms(2,3,4,5)]
  show ?thesis
    using assms(6) tg
    by (cases c)
       (simp_all add: command_defs trivialAction_def Let_def add.assoc split: option.splits)
qed

text \<open>
  C3.  In an encrypted game, when the request was written and a response of the
  expected type came back: without a \<open>pc\<close> the command returns the error
  \<open>missing pc\<close>, with a \<open>pc\<close> other than the one expected (the counter before the
  call plus two: one for the request, one for the response) it returns the error
  \<open>pc mismatch\<close>; the counter is then the expected value, not the value of the server.
  \<open>Rotate\<close>, \<open>Move\<close> and \<open>Watch\<close> put \<open>vikebot: \<close> in front of the error.
\<close>

theorem C3_pc_guard:
  assumes "Encrypted g"
    and "write_g E (packet_of c (pc g + 1)) (g\<lparr>pc := pc g + 1\<rparr>) w = (Ok u, w1)"
    and "read E False (g\<lparr>pc := pc g + 1\<rparr>) w1 = (Ok (t, b), w2)"
    and "json_response E b = Inr resp"
    and "resp_Type resp = expected_type c"
    and "resp_Pc resp \<noteq> Some (pc g + 2)"
  shows "command E c g w =
           (Err (wrapped c
                  (case resp_Pc resp of
                     None \<Rightarrow> ''vikebot: invalid server response. missing pc''
                   | Some v \<Rightarrow> ''vikebot: invalid server response. pc mismatch'')),
            g\<lparr>pc := pc g + 2\<rparr>, w2)
       \<and> pc (fst (snd (command E c g w))) = pc g + 2
       \<and> resp_Pc resp \<noteq> Some (pc (fst (snd (command E c g w))))"
  using command_guard [OF assms] assms(6) by simp

text \<open>
  C6.  \<open>Defend\<close>, \<open>Undefend\<close> and \<open>GetHealth\<close> on a response of the expected
  type and with the expected counter that carries an error: the error is not looked at.
  \<open>Defend\<close> and \<open>Undefend\<close> return nil, and \<open>GetHealth\<close> returns the value of
  \<open>obj\<close> when there is one.
\<close>

theorem C6_error_not_resurfaced:
  assumes "Encrypted g"
    and "write_g E (packet_of c (pc g + 1)) (g\<lparr>pc := pc g + 1\<rparr>) w = (Ok u, w1)"
    and "read E False (g\<lparr>pc := pc g + 1\<rparr>) w1 = (Ok (t, b), w2)"
    and "json_response E b = Inr resp"
    and "resp_Type resp = expected_type c"
    and "resp_Pc resp = Some (pc g + 2)"
    and "resp_Error resp = Some m"
    and "c = CDefend \<or> c = CUndefend \<or> c = CGetHealth"
    and "c = CGetHealth \<longrightarrow> json_healthResp E b = Inr hr \<and> hr_Obj hr = Some (Some h)"
  shows "command E c g w
           = (Ok (if c = CGetHealth then Number h else Done), g\<lparr>pc := pc g + 2\<rparr>, w2)"
proof -
  have enc: "Encrypted (g\<lparr>pc := pc g + 1\<rparr>)" using assms(1) by simp
  note tg = tar_guard [OF enc assms(2,3,4,5)]
  from assms(8) show ?thesis
    using tg assms(6,9)
    by (elim disjE) (simp_all add: command_defs trivialAction_def Let_def add.assoc)
qed

section \<open>The handshake\<close>

lemma join_hello_Ok:
  "join_hello E g w = (Ok g', w') \<Longrightarrow> g' = g\<lparr>Encrypted := True\<rparr>"
  by (auto simp add: join_hello_def Let_def
      split: prod.splits res.splits sum.splits option.splits if_splits)

text \<open>
  When the hello block succeeds, the cipher of the packet opened to \<open>serverhello:\<close>
  with the challenge of this run behind it, and only then is \<open>Encrypted\<close> set.
\<close>

lemma join_hello_verified:
  assumes "join_hello E g w = (Ok g', w')"
  shows "\<exists>b sh c. json_serverhelloPacket E b = Inr sh \<and> Cipher (sh_Obj sh) = Some c
           \<and> decryptStr E g c = Ok (''serverhello:'' @ fmt_uint (Uint64 (take 8 (rand w))))"
  using assms
  by (auto simp add: join_hello_def rand_ReadFull_def Let_def
      split: prod.splits res.splits sum.splits option.splits if_splits)

text \<open>
  The game that \<open>join_initialpc\<close> returns has the \<open>pc\<close> of the \<open>initialpc\<close>
  packet as its counter.
\<close>

lemma join_initialpc_Ok:
  assumes "join_initialpc E g w = (Ok g', w')"
  shows "\<exists>b resp. read E True g w = (Ok (''initialpc'', b), w') \<and> json_response E b = Inr resp
           \<and> resp_Pc resp = Some (pc g') \<and> g' = g\<lparr>pc := pc g'\<rparr>"
  using assms
  by (auto simp add: join_initialpc_def
      split: prod.splits res.splits sum.splits option.splits if_splits)

lemma join_agree_Ok:
  assumes "join_agree E g w = (Ok g', w')" and "Encrypted g"
  shows "g' = g\<lparr>pc := pc g + 2, Player := Some ThePlayer\<rparr>"
proof -
  let ?g1 = "g\<lparr>pc := pc g + 1\<rparr>"
  obtain p where a: "agreeconnPacket g = (p, ?g1)"
    by (simp add: agreeconnPacket_def Let_def)
  from assms(1) obtain u g2 where
    t: "trivialAction E ''agreeconn'' p ?g1 w = (Ok u, g2, w')"
    and g': "g' = g2\<lparr>Player := Some ThePlayer\<rparr>"
    unfolding join_agree_def a by (auto split: prod.splits res.splits)
  have "g2 = fst (snd (trivialAction E ''agreeconn'' p ?g1 w))" using t by simp
  then have "g2 = ?g1\<lparr>pc := pc ?g1 + 1\<rparr>"
    unfolding ta_game tar_game using ta_Ok [OF t] assms(2) by simp
  with g' show ?thesis by (simp add: add.assoc)
qed

lemma join_initialpc_Encrypted:
  "join_initialpc E g w = (Ok g', w') \<Longrightarrow> Encrypted g' = Encrypted g"
  by (auto simp add: join_initialpc_def
      split: prod.splits res.splits sum.splits option.splits if_splits)

lemma join_synced_Ok:
  assumes "join_synced E tok w = (Ok g3, w3)"
  shows "Encrypted g3"
proof (cases "join_connect E tok")
  case (Ok x)
  obtain ri g0 where x: "x = (ri, g0)" by (cases x)
  show ?thesis
  proof (cases "trivialAction E ''login'' (loginPacket (Ticket ri)) g0 w")
    case (fields r g1 w1)
    show ?thesis
    proof (cases r)
      case (Ok u)
      show ?thesis
      proof (cases "join_hello E g1 w1")
        case (Pair r2 w2)
        show ?thesis
        proof (cases r2)
          case (Ok g2)
          have h: "join_hello E g1 w1 = (Ok g2, w2)" using Pair Ok by simp
          have i: "join_initialpc E g2 w2 = (Ok g3, w3)"
            using assms \<open>join_connect E tok = Ok x\<close> x fields \<open>r = Ok u\<close> h
            by (simp add: join_synced_def)
          from join_hello_Ok [OF h] join_initialpc_Encrypted [OF i] show ?thesis by simp
        next
          case (Err e)
          then show ?thesis
            using assms \<open>join_connect E tok = Ok x\<close> x fields \<open>r = Ok u\<close> Pair
            by (simp add: join_synced_def)
        next
          case Panic
          then show ?thesis
            using assms \<open>join_connect E tok = Ok x\<close> x fields \<open>r = Ok u\<close> Pair
            by (simp add: join_synced_def)
        qed
      qed
    next
      case (Err e)
      then show ?thesis
        using assms \<open>join_connect E tok = Ok x\<close> x fields by (simp add: join_synced_def)
    next
      case Panic
      then show ?thesis
        using assms \<open>join_connect E tok = Ok x\<close> x fields by (simp add: join_synced_def)
    qed
  qed
next
  case (Err e)
  then show ?thesis using assms by (simp add: join_synced_def)
next
  case Panic
  then show ?thesis using assms by (simp add: join_synced_def)
qed

text \<open>
  C1 (amended).  The packet counter advances by two on every encrypted round trip: by
  one when the request is built and by one when its response is checked.  After a
  \<open>Join\<close> that succeeds the counter of the game is the \<open>pc\<close> of the \<open>initialpc\<close>
  packet (the counter of the game that \<open>join_synced\<close> returns) plus two, and after
  \<open>n\<close> more commands that succeed it is that \<open>pc\<close> plus \<open>2 + 2 * n\<close>, in 32-bit
  arithmetic.
\<close>

theorem C1_counter_law:
  assumes "Join E authtoken w = (Ok g, w1)"
    and "commands E cs g w1 = (Ok rs, g', w2)"
  shows "\<exists>g3 w3. join_synced E authtoken w = (Ok g3, w3)
           \<and> Encrypted g
           \<and> pc g = pc g3 + 2
           \<and> pc g' = pc g3 + 2 + 2 * of_nat (length cs)"
proof -
  obtain r3 w3 where j: "join_synced E authtoken w = (r3, w3)"
    by (cases "join_synced E authtoken w")
  from assms(1) j obtain g3 where r3: "r3 = Ok g3"
    by (cases r3) (simp_all add: Join_def)
  have s: "join_synced E authtoken w = (Ok g3, w3)" using j r3 by simp
  have a: "join_agree E g3 w3 = (Ok g, w1)"
    using assms(1) s by (simp add: Join_def)
  have e3: "Encrypted g3" using join_synced_Ok [OF s] .
  have g: "g = g3\<lparr>pc := pc g3 + 2, Player := Some ThePlayer\<rparr>"
    using join_agree_Ok [OF a e3] .
  then have e: "Encrypted g" using e3 by simp
  have "g' = g\<lparr>pc := pc g + 2 * of_nat (length cs)\<rparr>"
    using commands_Ok_game [OF assms(2) e] .
  with s e g show ?thesis by simp
qed

section \<open>Runs in the example environment\<close>

lemma enc64_in: "n < 64 \<Longrightarrow> enc64 n \<in> set encodeStd"
  by (simp add: enc64_def length_encodeStd)

lemma set_Encode: "set (Encode x) \<subseteq> set encodeStd"
proof (induction x rule: Encode.induct)
  case 1
  then show ?case by simp
next
  case (2 a)
  show ?case
    using sextets [OF of_char_lt [of a] of_char_lt [of a] of_char_lt [of a]]
    by (simp add: Let_def enc64_in)
next
  case (3 a b)
  show ?case
    using sextets [OF of_char_lt [of a] of_char_lt [of b] of_char_lt [of b]]
    by (simp add: Let_def enc64_in)
next
  case (4 a b c rest)
  show ?case
    using sextets [OF of_char_lt [of a] of_char_lt [of b] of_char_lt [of c]] 4
    by (simp add: Let_def enc64_in)
qed

lemma Encode_no_newline: "CHR 0x0A \<notin> set (Encode x)"
proof -
  have "CHR 0x0A \<notin> set encodeStd" by (simp add: encodeStd_def)
  with set_Encode [of x] show ?thesis by blast
qed

text \<open>In the example environment an encrypted game writes and reads as follows.\<close>

lemma encrypt64_Ok:
  assumes "gcm g = Some a" and "rand w = nonce @ r" and "length nonce = NonceSize E a"
  shows "encrypt64 E g p w = (Ok (Encode (nonce @ Seal E a nonce p)), w\<lparr>rand := r\<rparr>)"
proof -
  have "NonceSize E a \<le> length (rand w)"
    and "take (NonceSize E a) (rand w) = nonce" and "drop (NonceSize E a) (rand w) = r"
    using assms(2,3) by simp_all
  then show ?thesis
    using assms(1)
    by (simp add: encrypt64_def encrypt_def rand_ReadFull_def write_into_Encode
        del: length_append)
qed

lemma ex_write:
  assumes "gcm g = Some ex_aead" and "conn g = Some TheConn" and "Encrypted g"
  shows "write_g ex_env p g (ex_world input (''ABCDEFGHIJKL'' @ r))
         = (Ok (), (ex_world input r)
              \<lparr>net_out := [Encode (''ABCDEFGHIJKL'' @ p @ ''ABCDEFGHIJKL'') @ [CHR 0x0A]]\<rparr>)"
proof -
  have e: "encrypt64 ex_env g p (ex_world input (''ABCDEFGHIJKL'' @ r))
           = (Ok (Encode (''ABCDEFGHIJKL'' @ p @ ''ABCDEFGHIJKL'')), ex_world input r)"
    using encrypt64_Ok [OF assms(1), of "ex_world input (''ABCDEFGHIJKL'' @ r)"
        "''ABCDEFGHIJKL''" r ex_env p]
    by (simp add: ex_world_def ex_env_def del: Encode.simps)
  show ?thesis
    unfolding write_g_def e using assms(2,3)
    by (simp add: conn_Write_def ex_world_def del: Encode.simps)
qed

lemma ex_read:
  assumes "gcm g = Some ex_aead" and "buf g = Some TheReader" and "Encrypted g"
    and "length nonce = 12"
  shows "read ex_env False g (w\<lparr>net_in := ex_frame nonce packet @ rest\<rparr>)
         = (Ok ([], packet), w\<lparr>net_in := rest\<rparr>)"
proof -
  let ?c = "Encode (nonce @ packet @ nonce)"
  have n: "net_in (w\<lparr>net_in := ex_frame nonce packet @ rest\<rparr>) = ?c @ CHR 0x0A # rest"
    by (simp add: ex_frame_def ex_env_def)
  have d: "decrypt64 ex_env g ?c = Ok packet"
    unfolding decrypt64_def Decode_Encode
    using assms(1,4) by (simp add: write_into_decoded decrypt_def ex_env_def ex_Open_def)
  show ?thesis
    unfolding read_def ReadBytes_line [OF n Encode_no_newline]
    using assms(2,3) d by simp
qed


lemma ex_exchange:
  assumes "gcm g = Some ex_aead" and "conn g = Some TheConn" and "buf g = Some TheReader"
    and "Encrypted g" and "length nonce = 12"
    and "w1 = (ex_world (ex_frame nonce packet @ rest) r)
                \<lparr>net_out := [Encode (''ABCDEFGHIJKL'' @ p @ ''ABCDEFGHIJKL'') @ [CHR 0x0A]]\<rparr>"
    and "w2 = (ex_world rest r)
                \<lparr>net_out := [Encode (''ABCDEFGHIJKL'' @ p @ ''ABCDEFGHIJKL'') @ [CHR 0x0A]]\<rparr>"
  shows "write_g ex_env p g (ex_world (ex_frame nonce packet @ rest) (''ABCDEFGHIJKL'' @ r))
         = (Ok (), w1)"
    and "read ex_env False g w1 = (Ok ([], packet), w2)"
proof -
  show "write_g ex_env p g (ex_world (ex_frame nonce packet @ rest) (''ABCDEFGHIJKL'' @ r))
         = (Ok (), w1)"
    unfolding assms(6) by (rule ex_write [OF assms(1,2,4)])
  have "w1 = w1\<lparr>net_in := ex_frame nonce packet @ rest\<rparr>"
    and "w2 = w1\<lparr>net_in := rest\<rparr>"
    unfolding assms(6,7) by (simp_all add: ex_world_def)
  then show "read ex_env False g w1 = (Ok ([], packet), w2)"
    using ex_read [OF assms(1,3,4,5), where w = w1 and packet = packet and rest = rest] by simp
qed

lemmas run_defs = rand_ReadFull_def conn_Write_def ReadBytes_def encrypt_def encrypt64_def
  decrypt_def decrypt64_def write_g_def read_def trivialActionResp_def trivialAction_def

lemmas join_defs = Join_def join_synced_def join_connect_def join_hello_def join_initialpc_def
  join_agree_def encryptStr_def decryptStr_def loginPacket_def clienthelloPacket_def
  agreeconnPacket_def Uint64_def fmt_int_def fmt_uint.simps digit_def

text \<open>
  The client of the examples sends \<open>rotate\<close> as its first command after \<open>Join\<close>.
\<close>

lemma ex_facts:
  "gcm ex_game = Some ex_aead" "conn ex_game = Some TheConn" "buf ex_game = Some TheReader"
  "Encrypted ex_game" "pc ex_game = 7"
  "gcm (ex_game\<lparr>pc := n\<rparr>) = Some ex_aead" "conn (ex_game\<lparr>pc := n\<rparr>) = Some TheConn"
  "buf (ex_game\<lparr>pc := n\<rparr>) = Some TheReader" "Encrypted (ex_game\<lparr>pc := n\<rparr>)"
  by (simp_all add: ex_game_def)

lemma ex_nonce: "length ''server-nce-4'' = 12"
  by simp

lemma ex_rotate_Ok:
  "command ex_env (CRotate ''left'') ex_game
     (ex_world (ex_frame ''server-nce-4'' ex_rotate9) ''ABCDEFGHIJKL'')
   = (Ok Done, ex_game\<lparr>pc := 9\<rparr>,
      (ex_world [] [])
        \<lparr>net_out := [Encode (''ABCDEFGHIJKL'' @ packet_of (CRotate ''left'') 8 @ ''ABCDEFGHIJKL'')
                      @ [CHR 0x0A]]\<rparr>)"
proof -
  let ?g = "ex_game\<lparr>pc := 8\<rparr>"
  have f: "gcm ?g = Some ex_aead" "conn ?g = Some TheConn" "buf ?g = Some TheReader"
    "Encrypted ?g"
    by (simp_all add: ex_game_def)
  note x = ex_exchange [OF f ex_nonce refl refl,
      where packet = ex_rotate9 and rest = "[]" and r = "[]"
        and p = "packet_of (CRotate ''left'') 8"]
  have j: "json_response ex_env ex_rotate9
           = Inr \<lparr>resp_Type = ''rotate'', resp_Pc = Some 9, resp_Error = None\<rparr>"
    by (simp add: ex_defs)
  have e: "json_errorResp ex_env ex_rotate9 = Inr \<lparr>er_Error = None\<rparr>"
    by (simp add: ex_defs)
  have t: "trivialActionResp ex_env ''rotate'' (packet_of (CRotate ''left'') 8) ?g
             (ex_world (ex_frame ''server-nce-4'' ex_rotate9) ''ABCDEFGHIJKL'')
           = (Ok ex_rotate9, ex_game\<lparr>pc := 9\<rparr>,
              (ex_world [] [])
                \<lparr>net_out := [Encode (''ABCDEFGHIJKL'' @ packet_of (CRotate ''left'') 8 @ ''ABCDEFGHIJKL'')
                      @ [CHR 0x0A]]\<rparr>)"
    using tar_guard [OF f(4) x(1) x(2) j, of "''rotate''"]
    by (simp add: ex_game_def)
  have "Rotate ex_env ''left'' ex_game
          (ex_world (ex_frame ''server-nce-4'' ex_rotate9) ''ABCDEFGHIJKL'')
        = (Ok (), ex_game\<lparr>pc := 9\<rparr>,
           (ex_world [] [])
             \<lparr>net_out := [Encode (''ABCDEFGHIJKL'' @ packet_of (CRotate ''left'') 8 @ ''ABCDEFGHIJKL'')
                      @ [CHR 0x0A]]\<rparr>)"
    unfolding Rotate_def Let_def using t e
    by (simp add: ex_game_def del: Encode.simps)
  then show ?thesis by (simp add: lift_res_def)
qed


lemma answeredI:
  assumes "write_g E (packet_of c (pc g + 1)) (g\<lparr>pc := pc g + 1\<rparr>) w = (Ok u, w1)"
    and "read E False (g\<lparr>pc := pc g + 1\<rparr>) w1 = (Ok (t, b), w2)"
    and "json_response E b = Inr resp"
    and "resp_Type resp = expected_type c"
  shows "answered E c g w"
  using assms by (simp add: answered_def responded_def)

lemma ex_command_exchange:
  "write_g ex_env (packet_of c (pc ex_game + 1)) (ex_game\<lparr>pc := pc ex_game + 1\<rparr>)
     (ex_world (ex_frame ''server-nce-4'' packet) ''ABCDEFGHIJKL'')
   = (Ok (), (ex_world (ex_frame ''server-nce-4'' packet) [])
        \<lparr>net_out := [Encode (''ABCDEFGHIJKL'' @ packet_of c 8 @ ''ABCDEFGHIJKL'') @ [CHR 0x0A]]\<rparr>)"
  "read ex_env False (ex_game\<lparr>pc := pc ex_game + 1\<rparr>)
     ((ex_world (ex_frame ''server-nce-4'' packet) [])
        \<lparr>net_out := [Encode (''ABCDEFGHIJKL'' @ packet_of c 8 @ ''ABCDEFGHIJKL'') @ [CHR 0x0A]]\<rparr>)
   = (Ok ([], packet),
      (ex_world [] [])
        \<lparr>net_out := [Encode (''ABCDEFGHIJKL'' @ packet_of c 8 @ ''ABCDEFGHIJKL'') @ [CHR 0x0A]]\<rparr>)"
proof -
  let ?g = "ex_game\<lparr>pc := pc ex_game + 1\<rparr>"
  have f: "gcm ?g = Some ex_aead" "conn ?g = Some TheConn" "buf ?g = Some TheReader"
    "Encrypted ?g" and p: "pc ex_game + 1 = 8"
    by (simp_all add: ex_game_def)
  note x = ex_exchange [OF f ex_nonce refl refl,
      where packet = packet and rest = "[]" and r = "[]" and p = "packet_of c 8"]
  from x(1) show "write_g ex_env (packet_of c (pc ex_game + 1)) ?g
     (ex_world (ex_frame ''server-nce-4'' packet) ''ABCDEFGHIJKL'')
   = (Ok (), (ex_world (ex_frame ''server-nce-4'' packet) [])
        \<lparr>net_out := [Encode (''ABCDEFGHIJKL'' @ packet_of c 8 @ ''ABCDEFGHIJKL'') @ [CHR 0x0A]]\<rparr>)"
    unfolding p by simp
  from x(2) show "read ex_env False ?g
     ((ex_world (ex_frame ''server-nce-4'' packet) [])
        \<lparr>net_out := [Encode (''ABCDEFGHIJKL'' @ packet_of c 8 @ ''ABCDEFGHIJKL'') @ [CHR 0x0A]]\<rparr>)
   = (Ok ([], packet),
      (ex_world [] [])
        \<lparr>net_out := [Encode (''ABCDEFGHIJKL'' @ packet_of c 8 @ ''ABCDEFGHIJKL'') @ [CHR 0x0A]]\<rparr>)"
    by simp
qed

lemma ex_rotate8_response:
  "json_response ex_env ex_rotate8
   = Inr \<lparr>resp_Type = ''rotate'', resp_Pc = Some 8, resp_Error = None\<rparr>"
  by (simp add: ex_defs)

theorem C3_pc_guard_witness:
  "command ex_env (CRotate ''left'') ex_game
     (ex_world (ex_frame ''server-nce-4'' ex_rotate8) ''ABCDEFGHIJKL'')
   = (Err ''vikebot: vikebot: invalid server response. pc mismatch'', ex_game\<lparr>pc := 9\<rparr>,
      (ex_world [] [])
        \<lparr>net_out := [Encode (''ABCDEFGHIJKL'' @ packet_of (CRotate ''left'') 8 @ ''ABCDEFGHIJKL'')
                      @ [CHR 0x0A]]\<rparr>)
   \<and> pc (fst (snd (command ex_env (CRotate ''left'') ex_game
         (ex_world (ex_frame ''server-nce-4'' ex_rotate8) ''ABCDEFGHIJKL'')))) = 9"
proof -
  have 5: "resp_Type \<lparr>resp_Type = ''rotate'', resp_Pc = Some 8, resp_Error = None\<rparr>
           = expected_type (CRotate ''left'')"
    by simp
  have 6: "resp_Pc \<lparr>resp_Type = ''rotate'', resp_Pc = Some 8, resp_Error = None\<rparr>
           \<noteq> Some (pc ex_game + 2)"
    by (simp add: ex_game_def)
  show ?thesis
    using C3_pc_guard [OF ex_facts(4) ex_command_exchange ex_rotate8_response 5 6]
    by (simp add: ex_game_def del: Encode.simps packet_of.simps)
qed

theorem C10_no_rollback_witness:
  "pc (ex_game\<lparr>pc := 9\<rparr>) = pc ex_game + 2
   \<and> answered ex_env (CRotate ''left'') ex_game
         (ex_world (ex_frame ''server-nce-4'' ex_rotate8) ''ABCDEFGHIJKL'')
   \<and> pc (ex_game\<lparr>pc := 9\<rparr>) \<noteq> pc ex_game"
proof -
  have 5: "resp_Type \<lparr>resp_Type = ''rotate'', resp_Pc = Some 8, resp_Error = None\<rparr>
           = expected_type (CRotate ''left'')"
    by simp
  have 6: "resp_Pc \<lparr>resp_Type = ''rotate'', resp_Pc = Some 8, resp_Error = None\<rparr>
           \<noteq> Some (pc ex_game + 2)"
    by (simp add: ex_game_def)
  have c: "command ex_env (CRotate ''left'') ex_game
             (ex_world (ex_frame ''server-nce-4'' ex_rotate8) ''ABCDEFGHIJKL'')
           = (Err ''vikebot: vikebot: invalid server response. pc mismatch'', ex_game\<lparr>pc := 9\<rparr>,
              (ex_world [] [])
                \<lparr>net_out := [Encode (''ABCDEFGHIJKL'' @ packet_of (CRotate ''left'') 8 @ ''ABCDEFGHIJKL'')
                      @ [CHR 0x0A]]\<rparr>)"
    using command_guard [OF ex_facts(4) ex_command_exchange ex_rotate8_response 5 6]
    by (simp add: ex_game_def del: Encode.simps packet_of.simps)
  have a: "answered ex_env (CRotate ''left'') ex_game
         (ex_world (ex_frame ''server-nce-4'' ex_rotate8) ''ABCDEFGHIJKL'')"
    by (rule answeredI [OF ex_command_exchange ex_rotate8_response 5])
  show ?thesis
    using C10_no_rollback [OF c] a ex_facts(4) by (simp add: ex_game_def)
qed


theorem C6_error_not_resurfaced_witness:
  "json_response ex_env ex_defend
     = Inr \<lparr>resp_Type = ''defend'', resp_Pc = Some 9, resp_Error = Some ''not allowed''\<rparr>
   \<and> fst (command ex_env CDefend ex_game
            (ex_world (ex_frame ''server-nce-4'' ex_defend) ''ABCDEFGHIJKL'')) = Ok Done
   \<and> json_response ex_env ex_health
     = Inr \<lparr>resp_Type = ''health'', resp_Pc = Some 9, resp_Error = Some ''not allowed''\<rparr>
   \<and> fst (command ex_env CGetHealth ex_game
            (ex_world (ex_frame ''server-nce-4'' ex_health) ''ABCDEFGHIJKL'')) = Ok (Number 80)"
proof -
  have d: "json_response ex_env ex_defend
     = Inr \<lparr>resp_Type = ''defend'', resp_Pc = Some 9, resp_Error = Some ''not allowed''\<rparr>"
    and h: "json_response ex_env ex_health
     = Inr \<lparr>resp_Type = ''health'', resp_Pc = Some 9, resp_Error = Some ''not allowed''\<rparr>"
    and hr: "json_healthResp ex_env ex_health = Inr \<lparr>hr_Obj = Some (Some 80)\<rparr>"
    by (simp_all add: ex_defs)
  have p: "Some (9 :: 32 word) = Some (pc ex_game + 2)" by (simp add: ex_game_def)
  have 1: "fst (command ex_env CDefend ex_game
            (ex_world (ex_frame ''server-nce-4'' ex_defend) ''ABCDEFGHIJKL'')) = Ok Done"
    using C6_error_not_resurfaced [OF ex_facts(4) ex_command_exchange d,
        where c = CDefend and m = "''not allowed''" and hr = "\<lparr>hr_Obj = None\<rparr>" and h = 0] p
    by simp
  have 2: "fst (command ex_env CGetHealth ex_game
            (ex_world (ex_frame ''server-nce-4'' ex_health) ''ABCDEFGHIJKL'')) = Ok (Number 80)"
    using C6_error_not_resurfaced [OF ex_facts(4) ex_command_exchange h,
        where c = CGetHealth and m = "''not allowed''"
          and hr = "\<lparr>hr_Obj = Some (Some 80)\<rparr>" and h = 80] p hr
    by simp
  from d h 1 2 show ?thesis by simp
qed

lemma ex_synced:
  "fst (join_synced ex_env ''token'' (ex_world ex_handshake ex_rand))
   = Ok (ex_game\<lparr>pc := 5, Player := None\<rparr>)"
  by (simp add: join_defs run_defs ex_defs ex_frame_def ex_handshake_def ex_rand_def b64_eval)

lemma ex_Join:
  "Join ex_env ''token'' (ex_world (ex_handshake @ rest) (ex_rand @ r))
   = (Ok ex_game, (ex_world rest r)\<lparr>net_out := ex_sent\<rparr>)"
  by (simp add: join_defs run_defs ex_defs ex_frame_def ex_handshake_def ex_rand_def ex_sent_def
      b64_eval)

lemma ex_Join_otherhello:
  "Join ex_env ''token'' (ex_world ex_handshake_otherhello ex_rand)
   = (Ok ex_game, (ex_world [] [])\<lparr>net_out := ex_sent\<rparr>)"
  by (simp add: join_defs run_defs ex_defs ex_frame_def ex_handshake_otherhello_def ex_rand_def
      ex_sent_def b64_eval)

lemma ex_rotate_after_Join:
  "commands ex_env [CRotate ''left''] ex_game
     ((ex_world (ex_frame ''server-nce-4'' ex_rotate9) ''ABCDEFGHIJKL'')\<lparr>net_out := ex_sent\<rparr>)
   = (Ok [Done], ex_game\<lparr>pc := 9\<rparr>,
      (ex_world [] [])
        \<lparr>net_out := ex_sent
           @ [Encode (''ABCDEFGHIJKL'' @ packet_of (CRotate ''left'') 8 @ ''ABCDEFGHIJKL'')
              @ [CHR 0x0A]]\<rparr>)"
  by (simp add: command_defs run_defs ex_defs ex_frame_def ex_sent_def b64_eval
      fmt_uint.simps digit_def)

theorem C1_counter_law_witness:
  "Join ex_env ''token''
     (ex_world (ex_handshake @ ex_frame ''server-nce-4'' ex_rotate9) (ex_rand @ ''ABCDEFGHIJKL''))
   = (Ok ex_game,
      (ex_world (ex_frame ''server-nce-4'' ex_rotate9) ''ABCDEFGHIJKL'')\<lparr>net_out := ex_sent\<rparr>)
   \<and> (\<exists>g3 w3. join_synced ex_env ''token''
          (ex_world (ex_handshake @ ex_frame ''server-nce-4'' ex_rotate9) (ex_rand @ ''ABCDEFGHIJKL''))
          = (Ok g3, w3)
        \<and> Encrypted ex_game
        \<and> pc ex_game = pc g3 + 2
        \<and> pc (ex_game\<lparr>pc := 9\<rparr>) = pc g3 + 2 + 2 * of_nat (length [CRotate ''left'']))"
  using C1_counter_law [OF ex_Join ex_rotate_after_Join] ex_Join by simp

theorem C1_counter_counterexample:
  "fst (join_synced ex_env ''token'' (ex_world ex_handshake ex_rand))
     = Ok (ex_game\<lparr>pc := 5, Player := None\<rparr>)
   \<and> fst (Join ex_env ''token'' (ex_world ex_handshake ex_rand)) = Ok ex_game
   \<and> pc ex_game \<noteq> pc (ex_game\<lparr>pc := 5, Player := None\<rparr>) + 1
   \<and> command ex_env (CRotate ''left'') ex_game
        (ex_world (ex_frame ''server-nce-4'' ex_rotate9) ''ABCDEFGHIJKL'')
     = (Ok Done, ex_game\<lparr>pc := 9\<rparr>,
        (ex_world [] [])
          \<lparr>net_out := [Encode (''ABCDEFGHIJKL'' @ packet_of (CRotate ''left'') 8 @ ''ABCDEFGHIJKL'')
                        @ [CHR 0x0A]]\<rparr>)
   \<and> pc (ex_game\<lparr>pc := 9\<rparr>) \<noteq> pc ex_game + 1"
proof -
  have "fst (Join ex_env ''token'' (ex_world ex_handshake ex_rand)) = Ok ex_game"
    using ex_Join [of "[]" "[]"] by simp
  then show ?thesis
    using ex_synced ex_rotate_Ok by (simp add: ex_game_def del: Encode.simps packet_of.simps)
qed

text \<open>
  C2.  A server that answers \<open>clienthello\<close> with a packet of type \<open>hello\<close> that has
  no \<open>error\<close> and carries the sealed \<open>serverhello:7\<close> for the challenge 7:
  \<open>Join\<close> goes on, switches to encryption, and returns the game.
\<close>

theorem C2_type_not_enforced:
  "json_typePacket ex_env ex_otherhello = Inr \<lparr>tp_Type = ''hello''\<rparr>
   \<and> ex_handshake_otherhello
       = ex_login @ ex_otherhello @ ex_frame ''server-nce-2'' ex_initialpc
         @ ex_frame ''server-nce-3'' ex_agreeconn
   \<and> Join ex_env ''token'' (ex_world ex_handshake_otherhello ex_rand)
       = (Ok ex_game, (ex_world [] [])\<lparr>net_out := ex_sent\<rparr>)
   \<and> Encrypted ex_game"
proof -
  have "json_typePacket ex_env ex_otherhello = Inr \<lparr>tp_Type = ''hello''\<rparr>"
    by (simp add: ex_defs)
  then show ?thesis
    using ex_Join_otherhello by (simp add: ex_handshake_otherhello_def ex_game_def)
qed

text \<open>
  C9.  The packets are built by \<open>Sprintf\<close> with the verb \<open>%s\<close>, which does not
  escape.  With a double quote as the ticket of \<open>loginPacket\<close>, or as the angle of
  \<open>Rotate\<close>, the bytes handed to \<open>write\<close> have a string literal that is not
  closed: they are not JSON.
\<close>

theorem C9_unescaped_argument:
  \<open>loginPacket [CHR 0x22] = ''{"type":"login","obj":{"roundticket":"""}}''
   \<and> \<not> strings_closed (loginPacket [CHR 0x22])
   \<and> net_out (snd (snd (Rotate ex_env [CHR 0x22] ex_plain_game (ex_world [] []))))
       = [''{"type":"rotate","pc":1,"obj":{"angle":"""}}'' @ [CHR 0x0A]]
   \<and> \<not> strings_closed ''{"type":"rotate","pc":1,"obj":{"angle":"""}}''
   \<and> strings_closed ''{"type":"rotate","pc":1,"obj":{"angle":"left"}}''\<close>
  by (simp add: loginPacket_def strings_closed_def Rotate_def run_defs ex_defs
      fmt_uint.simps digit_def)

end
